theory Spec2Isabelle
  imports Main "HOL-Library.Word"
begin

unbundle bit_operations_syntax

section \<open>Byte memory\<close>

text \<open>
  The header \<^verbatim>\<open>mighty_struct.h\<close> works on raw bytes: every object lives inside one
  block and is reached by pointer arithmetic.  Memory is a map from addresses to bytes.
  An address is an integer and the null pointer is the address \<open>0\<close>.  The fields
  \<^verbatim>\<open>Size\<close> (\<^verbatim>\<open>uint32_t\<close>) and \<^verbatim>\<open>Offset\<close> (\<^verbatim>\<open>int32_t\<close>) are 32-bit words stored in four
  bytes, least significant byte first.  A \<^verbatim>\<open>size_t\<close> value is a natural number; where
  the source can wrap (the product in \<^verbatim>\<open>Allocate\<close>, the difference in \<^verbatim>\<open>InplaceNew\<close>)
  the reduction modulo \<open>2 ^ 64\<close> is written out.
\<close>

type_synonym addr = int
type_synonym byte = "8 word"
type_synonym mem = "addr \<Rightarrow> byte"

definition load32 :: "mem \<Rightarrow> addr \<Rightarrow> 32 word" where
  "load32 m a =
     ucast (m a) OR push_bit 8 (ucast (m (a + 1))) OR
     push_bit 16 (ucast (m (a + 2))) OR push_bit 24 (ucast (m (a + 3)))"

definition store32 :: "mem \<Rightarrow> addr \<Rightarrow> 32 word \<Rightarrow> mem" where
  "store32 m a w =
     (\<lambda>x. if x = a then ucast w
          else if x = a + 1 then ucast (drop_bit 8 w)
          else if x = a + 2 then ucast (drop_bit 16 w)
          else if x = a + 3 then ucast (drop_bit 24 w)
          else m x)"

text \<open>\<^verbatim>\<open>std::memset(p, 0, n)\<close> and \<^verbatim>\<open>std::memcpy(dst, src, n)\<close>.\<close>

definition memset0 :: "mem \<Rightarrow> addr \<Rightarrow> nat \<Rightarrow> mem" where
  "memset0 m p n = (\<lambda>x. if p \<le> x \<and> x < p + int n then 0 else m x)"

definition memcpy :: "mem \<Rightarrow> addr \<Rightarrow> addr \<Rightarrow> nat \<Rightarrow> mem" where
  "memcpy m dst src n =
     (\<lambda>x. if dst \<le> x \<and> x < dst + int n then m (src + (x - dst)) else m x)"

section \<open>OffsetPtr\<close>

text \<open>
  An \<^verbatim>\<open>OffsetPtr\<close> is the four bytes of its \<^verbatim>\<open>offset_\<close> member; \<open>self\<close> is the address
  of that member.  \<^verbatim>\<open>to_offset\<close> narrows the pointer difference to \<^verbatim>\<open>int32_t\<close>.
\<close>

definition to_offset :: "addr \<Rightarrow> addr \<Rightarrow> 32 word" where
  "to_offset self ptr = (if ptr \<noteq> 0 then word_of_int (ptr - self) else 0)"

definition OffsetPtr_get :: "mem \<Rightarrow> addr \<Rightarrow> addr" where
  "OffsetPtr_get m self =
     (if load32 m self = 0 then 0 else self + sint (load32 m self))"

definition OffsetPtr_bool :: "mem \<Rightarrow> addr \<Rightarrow> bool" where
  "OffsetPtr_bool m self = (load32 m self \<noteq> 0)"

text \<open>\<^verbatim>\<open>operator= (const T *ptr)\<close> and \<^verbatim>\<open>operator= (const OffsetPtr<T> &ptr)\<close>.\<close>

definition OffsetPtr_assign :: "mem \<Rightarrow> addr \<Rightarrow> addr \<Rightarrow> mem" where
  "OffsetPtr_assign m self ptr = store32 m self (to_offset self ptr)"

definition OffsetPtr_assign_from :: "mem \<Rightarrow> addr \<Rightarrow> addr \<Rightarrow> mem" where
  "OffsetPtr_assign_from m self other =
     store32 m self (to_offset self (OffsetPtr_get m other))"

section \<open>Allocator\<close>

text \<open>
  \<^verbatim>\<open>struct Allocator { Size capacity; Size used_space; }\<close>: \<open>capacity\<close> at offset 0,
  \<open>used_space\<close> at offset 4, \<^verbatim>\<open>sizeof(Allocator)\<close> is 8.
\<close>

definition sizeof_Allocator :: nat where
  "sizeof_Allocator = 8"

definition Allocator_capacity :: "mem \<Rightarrow> addr \<Rightarrow> 32 word" where
  "Allocator_capacity m this = load32 m this"

definition Allocator_used_space :: "mem \<Rightarrow> addr \<Rightarrow> 32 word" where
  "Allocator_used_space m this = load32 m (this + 4)"

text \<open>The constructor \<^verbatim>\<open>Allocator(size_t n)\<close>, run by placement new at \<open>this\<close>.\<close>

definition Allocator_ctor :: "mem \<Rightarrow> addr \<Rightarrow> nat \<Rightarrow> mem" where
  "Allocator_ctor m this n =
     store32 (store32 m this (of_nat n)) (this + 4) (of_nat sizeof_Allocator)"

text \<open>
  \<^verbatim>\<open>Allocator::Allocate<T>(count)\<close> with \<open>szT\<close> for \<^verbatim>\<open>sizeof(T)\<close>.  The difference
  \<^verbatim>\<open>capacity - used_space\<close> is taken in 32 bits and widened; the product is a
  \<^verbatim>\<open>size_t\<close>.  \<^verbatim>\<open>used_space += required_space\<close> reads the field again after the
  \<^verbatim>\<open>memset\<close>.  The result is the returned pointer and the memory after the call.
\<close>

definition Allocate :: "mem \<Rightarrow> addr \<Rightarrow> nat \<Rightarrow> nat \<Rightarrow> addr \<times> mem" where
  "Allocate m this szT count =
     (if count = 0 then (0, m)
      else
        let available_space = unat (Allocator_capacity m this - Allocator_used_space m this);
            required_space = (szT * count) mod 2 ^ 64
        in if required_space > available_space then (0, m)
           else
             let ptr = this + uint (Allocator_used_space m this);
                 m1 = memset0 m ptr required_space;
                 m2 = store32 m1 (this + 4)
                        (Allocator_used_space m1 this + of_nat required_space)
             in (ptr, m2))"

section \<open>Struct: the block header\<close>

text \<open>
  \<^verbatim>\<open>struct Struct { Size struct_size; OffsetPtr<Allocator> allocator; }\<close>:
  \<open>struct_size\<close> at offset 0, \<open>allocator\<close> at offset 4.  The sums in \<^verbatim>\<open>capacity()\<close> and
  \<^verbatim>\<open>used_space()\<close> have type \<^verbatim>\<open>uint32_t\<close> and are widened to \<^verbatim>\<open>size_t\<close> afterwards.
\<close>

definition Struct_capacity :: "mem \<Rightarrow> addr \<Rightarrow> nat" where
  "Struct_capacity m this =
     unat (load32 m this +
       (if OffsetPtr_bool m (this + 4)
        then Allocator_capacity m (OffsetPtr_get m (this + 4)) else 0))"

definition Struct_used_space :: "mem \<Rightarrow> addr \<Rightarrow> nat" where
  "Struct_used_space m this =
     unat (load32 m this +
       (if OffsetPtr_bool m (this + 4)
        then Allocator_used_space m (OffsetPtr_get m (this + 4)) else 0))"

text \<open>\<^verbatim>\<open>Struct::Init<S>(free_space)\<close>, with \<open>szS\<close> for \<^verbatim>\<open>sizeof(S)\<close>.\<close>

definition Init :: "nat \<Rightarrow> mem \<Rightarrow> addr \<Rightarrow> nat \<Rightarrow> mem" where
  "Init szS m this free_space =
     (let m1 = store32 m this (of_nat szS)
      in if free_space \<noteq> 0 then
           let addr = this + uint (load32 m1 this);
               m2 = Allocator_ctor m1 addr free_space
           in OffsetPtr_assign m2 (this + 4) addr
         else OffsetPtr_assign m1 (this + 4) 0)"

text \<open>
  The implicit default constructor of \<^verbatim>\<open>Struct\<close>: the member \<open>allocator\<close> is built by
  \<^verbatim>\<open>OffsetPtr() : offset_(0)\<close>, the member \<open>struct_size\<close> is left as it is.
\<close>

definition Struct_ctor :: "mem \<Rightarrow> addr \<Rightarrow> mem" where
  "Struct_ctor m this = store32 m (this + 4) 0"

text \<open>\<^verbatim>\<open>HasMember\<close>: the unsigned size is compared with a signed pointer difference.\<close>

definition HasMember :: "mem \<Rightarrow> addr \<Rightarrow> addr \<Rightarrow> bool" where
  "HasMember m this member = (uint (load32 m this) > member - this)"

definition Struct_Allocate :: "mem \<Rightarrow> addr \<Rightarrow> nat \<Rightarrow> nat \<Rightarrow> addr \<times> mem" where
  "Struct_Allocate m this szT count =
     (if OffsetPtr_bool m (this + 4)
      then Allocate m (OffsetPtr_get m (this + 4)) szT count
      else (0, m))"

definition Find :: "mem \<Rightarrow> addr \<Rightarrow> nat \<Rightarrow> nat \<Rightarrow> addr" where
  "Find m this szT offset =
     (if (offset + szT) mod 2 ^ 64 > Struct_capacity m this then 0 else this + int offset)"

subsection \<open>Block lifecycle\<close>

text \<open>
  The record type \<^verbatim>\<open>S\<close> is a template parameter.  Of \<^verbatim>\<open>S\<close> the functions use
  \<^verbatim>\<open>sizeof(S)\<close> (\<open>szS\<close>) and its default constructor (\<open>ctor\<close>, run by placement new at
  the buffer).  In \<^verbatim>\<open>New\<close> the buffer comes from \<^verbatim>\<open>new char[capacity]\<close>; the address the
  host heap returns is the parameter \<open>buffer\<close>.  \<^verbatim>\<open>capacity - sizeof(S)\<close> is a \<^verbatim>\<open>size_t\<close>
  difference.
\<close>

definition InplaceNew ::
  "(mem \<Rightarrow> addr \<Rightarrow> mem) \<Rightarrow> nat \<Rightarrow> mem \<Rightarrow> addr \<Rightarrow> nat \<Rightarrow> addr \<times> mem" where
  "InplaceNew ctor szS m buffer capacity =
     (buffer, Init szS (ctor m buffer) buffer ((capacity + 2 ^ 64 - szS) mod 2 ^ 64))"

definition New ::
  "(mem \<Rightarrow> addr \<Rightarrow> mem) \<Rightarrow> nat \<Rightarrow> mem \<Rightarrow> addr \<Rightarrow> nat \<Rightarrow> addr \<times> mem" where
  "New ctor szS m buffer capacity = InplaceNew ctor szS m buffer capacity"

text \<open>
  \<^verbatim>\<open>Struct::Copy\<close>.  \<^verbatim>\<open>original_capacity - struct_size\<close> is a \<^verbatim>\<open>size_t\<close> difference
  narrowed to \<^verbatim>\<open>Size\<close>, which is the difference of the two values in 32 bits.  After
  the \<^verbatim>\<open>memcpy\<close> the members \<open>allocator\<close> and \<open>struct_size\<close> are those just copied.
\<close>

definition Copy :: "mem \<Rightarrow> addr \<Rightarrow> addr \<Rightarrow> bool \<times> mem" where
  "Copy m this src =
     (if src = 0 \<or> Struct_capacity m this < Struct_used_space m src then (False, m)
      else
        let original_capacity = Struct_capacity m this;
            m1 = memcpy m this src (Struct_used_space m src);
            m2 = (if OffsetPtr_bool m1 (this + 4)
                  then store32 m1 (OffsetPtr_get m1 (this + 4))
                         (of_nat original_capacity - load32 m1 this)
                  else m1)
        in (True, m2))"

definition NewCopy ::
  "(mem \<Rightarrow> addr \<Rightarrow> mem) \<Rightarrow> nat \<Rightarrow> mem \<Rightarrow> addr \<Rightarrow> addr \<Rightarrow> addr \<times> mem" where
  "NewCopy ctor szS m buffer src =
     (if src = 0 then (0, m)
      else
        case New ctor szS m buffer (Struct_used_space m src) of
          (ret, m1) \<Rightarrow> if ret \<noteq> 0 then (ret, snd (Copy m1 ret src)) else (ret, m1))"

section \<open>C strings and String\<close>

text \<open>
  \<^verbatim>\<open>strlen\<close> and \<^verbatim>\<open>strcmp\<close> scan memory up to a NUL byte; with no NUL they do not
  return, which is the value \<open>None\<close>.  \<open>cstring\<close> is the character sequence a
  \<^verbatim>\<open>std::string\<close> built from the pointer holds.  \<^verbatim>\<open>strcmp\<close> returns the sign.
\<close>

partial_function (option) strlen :: "mem \<Rightarrow> addr \<Rightarrow> nat option" where
  "strlen m p =
     (if m p = 0 then Some 0
      else Option.bind (strlen m (p + 1)) (\<lambda>n. Some (Suc n)))"

partial_function (option) cstring :: "mem \<Rightarrow> addr \<Rightarrow> byte list option" where
  "cstring m p =
     (if m p = 0 then Some []
      else Option.bind (cstring m (p + 1)) (\<lambda>cs. Some (m p # cs)))"

partial_function (option) strcmp :: "mem \<Rightarrow> addr \<Rightarrow> addr \<Rightarrow> int option" where
  "strcmp m p q =
     (if m p \<noteq> m q then Some (if m p < m q then - 1 else 1)
      else if m p = 0 then Some 0
      else strcmp m (p + 1) (q + 1))"

text \<open>
  \<^verbatim>\<open>strncpy(p, str.c_str(), size)\<close> with \<^verbatim>\<open>size = str.length() + 1\<close>: the characters
  before the first NUL of \<open>str\<close>, then NUL bytes up to \<open>size\<close>.
\<close>

definition strncpy :: "mem \<Rightarrow> addr \<Rightarrow> byte list \<Rightarrow> nat \<Rightarrow> mem" where
  "strncpy m p str n =
     (let cs = takeWhile (\<lambda>c. c \<noteq> 0) str
      in (\<lambda>x. if p \<le> x \<and> x < p + int n
               then (if nat (x - p) < length cs then cs ! nat (x - p) else 0)
               else m x))"

definition CreateString :: "mem \<Rightarrow> addr \<Rightarrow> byte list \<Rightarrow> addr \<times> mem" where
  "CreateString m this str =
     (let size = (length str + 1) mod 2 ^ 64
      in case Struct_Allocate m this 1 size of
           (p, m1) \<Rightarrow> if p \<noteq> 0 then (p, strncpy m1 p str size) else (p, m1))"

text \<open>
  \<^verbatim>\<open>struct String { OffsetPtr<char> data; }\<close>.  \<open>lit\<close> is the address of the empty
  string literal that \<^verbatim>\<open>c_str()\<close> returns for a null \<open>data\<close>.  In
  \<^verbatim>\<open>operator== (const String& o)\<close> the argument \<^verbatim>\<open>o.data\<close> converts to \<^verbatim>\<open>char*\<close> through
  \<^verbatim>\<open>get()\<close>.
\<close>

definition String_assign :: "mem \<Rightarrow> addr \<Rightarrow> addr \<Rightarrow> mem" where
  "String_assign m this str = OffsetPtr_assign m this str"

definition String_eq_cstr :: "mem \<Rightarrow> addr \<Rightarrow> addr \<Rightarrow> bool option" where
  "String_eq_cstr m this s =
     (if OffsetPtr_get m this = s then Some True
      else if OffsetPtr_bool m this \<and> s \<noteq> 0
        then map_option (\<lambda>r. r = 0) (strcmp m (OffsetPtr_get m this) s)
        else Some False)"

definition String_eq :: "mem \<Rightarrow> addr \<Rightarrow> addr \<Rightarrow> bool option" where
  "String_eq m this other = String_eq_cstr m this (OffsetPtr_get m other)"

definition c_str :: "addr \<Rightarrow> mem \<Rightarrow> addr \<Rightarrow> addr" where
  "c_str lit m this = (if OffsetPtr_bool m this then OffsetPtr_get m this else lit)"

definition String_length :: "addr \<Rightarrow> mem \<Rightarrow> addr \<Rightarrow> nat option" where
  "String_length lit m this =
     (if OffsetPtr_bool m this then strlen m (c_str lit m this) else Some 0)"

definition String_empty :: "mem \<Rightarrow> addr \<Rightarrow> bool" where
  "String_empty m this = (\<not> OffsetPtr_bool m this \<or> m (OffsetPtr_get m this) = 0)"

definition String_clear :: "mem \<Rightarrow> addr \<Rightarrow> mem" where
  "String_clear m this = OffsetPtr_assign m this 0"

text \<open>\<^verbatim>\<open>operator std::string ()\<close>: the characters at \<^verbatim>\<open>c_str()\<close>.\<close>

definition String_to_string :: "addr \<Rightarrow> mem \<Rightarrow> addr \<Rightarrow> byte list option" where
  "String_to_string lit m this = cstring m (c_str lit m this)"

section \<open>List\<close>

text \<open>
  \<^verbatim>\<open>List<T>\<close> has \<open>size_\<close> at offset 0, \<open>value\<close> at offset 4 and \<open>next\<close> at offset 8;
  \<^verbatim>\<open>sizeof(List<T>)\<close> is 12.  A \<^verbatim>\<open>content_type\<close> lives outside the block and holds raw
  pointers.  Indexed access raises \<^verbatim>\<open>std::out_of_range\<close>.
\<close>

datatype error = OutOfRange

record List_content =
  c_size :: nat
  c_value :: addr
  c_next :: addr

definition sizeof_List :: nat where
  "sizeof_List = 12"

definition List_size :: "mem \<Rightarrow> addr \<Rightarrow> nat" where
  "List_size m this = unat (load32 m this)"

definition List_empty :: "mem \<Rightarrow> addr \<Rightarrow> bool" where
  "List_empty m this = (load32 m this = 0)"

definition List_value :: "mem \<Rightarrow> addr \<Rightarrow> addr" where
  "List_value m this = OffsetPtr_get m (this + 4)"

definition List_next :: "mem \<Rightarrow> addr \<Rightarrow> addr" where
  "List_next m this = OffsetPtr_get m (this + 8)"

text \<open>\<^verbatim>\<open>operator= (const content_type& a)\<close> and \<^verbatim>\<open>clear()\<close>.\<close>

definition List_assign :: "mem \<Rightarrow> addr \<Rightarrow> List_content \<Rightarrow> mem" where
  "List_assign m this a =
     (let m1 = store32 m this (of_nat (c_size a));
          m2 = OffsetPtr_assign m1 (this + 4) (c_value a)
      in OffsetPtr_assign m2 (this + 8) (c_next a))"

definition List_clear :: "mem \<Rightarrow> addr \<Rightarrow> mem" where
  "List_clear m this =
     (let m1 = store32 m this 0;
          m2 = OffsetPtr_assign m1 (this + 4) 0
      in OffsetPtr_assign m2 (this + 8) 0)"

text \<open>
  The constructor \<^verbatim>\<open>List() : size_(0)\<close>; the members \<open>value\<close> and \<open>next\<close> are built by
  \<^verbatim>\<open>OffsetPtr() : offset_(0)\<close>.
\<close>

definition List_ctor :: "mem \<Rightarrow> addr \<Rightarrow> mem" where
  "List_ctor m this = store32 (store32 (store32 m this 0) (this + 4) 0) (this + 8) 0"

text \<open>\<^verbatim>\<open>operator[] (size_t index)\<close>; the result is the address the reference denotes.\<close>

fun List_index :: "mem \<Rightarrow> addr \<Rightarrow> nat \<Rightarrow> error + addr" where
  "List_index m this index =
     (if index \<ge> List_size m this then Inl OutOfRange
      else if index = 0 then Inr (List_value m this)
      else List_index m (List_next m this) (index - 1))"

declare List_index.simps [simp del]

text \<open>An iterator is its \<open>ptr\<close> member; the end iterator holds the null pointer.\<close>

definition List_begin :: "mem \<Rightarrow> addr \<Rightarrow> addr" where
  "List_begin m this = (if List_empty m this then 0 else this)"

definition List_end :: addr where
  "List_end = 0"

definition iterator_incr :: "mem \<Rightarrow> addr \<Rightarrow> addr" where
  "iterator_incr m ptr =
     (if ptr \<noteq> 0 \<and> OffsetPtr_bool m (ptr + 8) then List_next m ptr else 0)"

definition iterator_deref :: "mem \<Rightarrow> addr \<Rightarrow> addr" where
  "iterator_deref m ptr = List_value m ptr"

text \<open>
  \<^verbatim>\<open>Struct::CreateList<T>(size)\<close>: the descriptor returned and the memory after the
  allocations.
\<close>

fun CreateList :: "nat \<Rightarrow> mem \<Rightarrow> addr \<Rightarrow> nat \<Rightarrow> List_content \<times> mem" where
  "CreateList szT m this size' =
     (if size' > 0 then
        (case Struct_Allocate m this szT 1 of
           (v, m1) \<Rightarrow>
             if v = 0 then (\<lparr>c_size = 0, c_value = 0, c_next = 0\<rparr>, m1)
             else if size' > 1 then
               (case Struct_Allocate m1 this sizeof_List 1 of
                  (nx, m2) \<Rightarrow>
                    if nx = 0 then (\<lparr>c_size = 0, c_value = v, c_next = 0\<rparr>, m2)
                    else
                      (case CreateList szT m2 this (size' - 1) of
                         (c, m3) \<Rightarrow>
                           let m4 = List_assign m3 nx c
                           in if List_empty m4 nx
                              then (\<lparr>c_size = 0, c_value = v, c_next = nx\<rparr>, m4)
                              else (\<lparr>c_size = size', c_value = v, c_next = nx\<rparr>, m4)))
             else (\<lparr>c_size = size', c_value = v, c_next = 0\<rparr>, m1))
      else (\<lparr>c_size = 0, c_value = 0, c_next = 0\<rparr>, m))"

declare CreateList.simps [simp del]

text \<open>
  \<^verbatim>\<open>List<T>::append(Struct* s, const content_type& c)\<close> follows the \<open>next\<close> members; on a
  cyclic chain it does not return, which is the value \<open>None\<close>.
\<close>

partial_function (option) List_append ::
  "mem \<Rightarrow> addr \<Rightarrow> addr \<Rightarrow> List_content \<Rightarrow> (bool \<times> mem) option" where
  "List_append m this s c =
     (if s = 0 then Some (False, m)
      else if List_empty m this then Some (True, List_assign m this c)
      else
        let m1 = (if \<not> OffsetPtr_bool m (this + 8)
                  then (case Struct_Allocate m s sizeof_List 1 of
                          (p, m') \<Rightarrow> OffsetPtr_assign m' (this + 8) p)
                  else m)
        in if \<not> OffsetPtr_bool m1 (this + 8) then Some (False, m1)
           else
             Option.bind (List_append m1 (List_next m1 this) s c)
               (\<lambda>(ok, m2).
                  if \<not> ok then Some (False, m2)
                  else Some (True,
                         store32 m2 this (load32 m2 (List_next m2 this) + 1))))"

text \<open>\<^verbatim>\<open>append(Struct* s, V* v)\<close>.\<close>

definition List_append_value ::
  "mem \<Rightarrow> addr \<Rightarrow> addr \<Rightarrow> addr \<Rightarrow> (bool \<times> mem) option" where
  "List_append_value m this s v =
     (if s = 0 \<or> v = 0 then Some (False, m)
      else List_append m this s \<lparr>c_size = 1, c_value = v, c_next = 0\<rparr>)"

fun List_resize :: "nat \<Rightarrow> mem \<Rightarrow> addr \<Rightarrow> addr \<Rightarrow> nat \<Rightarrow> (bool \<times> mem) option" where
  "List_resize szT m this s new_size =
     (if new_size = List_size m this then Some (True, m)
      else if new_size > List_size m this then
        (case CreateList szT m s (new_size - List_size m this) of
           (c, m1) \<Rightarrow> List_append m1 this s c)
      else if new_size = 0 then Some (True, List_clear m this)
      else if new_size = 1
        then Some (True, store32 (OffsetPtr_assign m (this + 8) 0) this (of_nat new_size))
      else
        (case List_resize szT m (List_next m this) s (new_size - 1) of
           None \<Rightarrow> None
         | Some (ok, m1) \<Rightarrow>
             if \<not> ok then Some (False, m1)
             else Some (True, store32 m1 this (of_nat new_size))))"

declare List_resize.simps [simp del]

section \<open>Vector and Map\<close>

text \<open>
  \<^verbatim>\<open>Vector<T>\<close> has \<open>size_\<close> at offset 0 and \<open>at\<close> at offset 4; \<open>szT\<close> is \<^verbatim>\<open>sizeof(T)\<close>.
  An iterator is a \<^verbatim>\<open>T*\<close>.
\<close>

record Vector_content =
  v_size :: nat
  v_at :: addr

definition Vector_size :: "mem \<Rightarrow> addr \<Rightarrow> nat" where
  "Vector_size m this = unat (load32 m this)"

definition Vector_assign :: "mem \<Rightarrow> addr \<Rightarrow> Vector_content \<Rightarrow> mem" where
  "Vector_assign m this a =
     OffsetPtr_assign (store32 m this (of_nat (v_size a))) (this + 4) (v_at a)"

definition Vector_index :: "nat \<Rightarrow> mem \<Rightarrow> addr \<Rightarrow> nat \<Rightarrow> error + addr" where
  "Vector_index szT m this index =
     (if index \<ge> Vector_size m this then Inl OutOfRange
      else Inr (OffsetPtr_get m (this + 4) + int (index * szT)))"

definition Vector_begin :: "mem \<Rightarrow> addr \<Rightarrow> addr" where
  "Vector_begin m this = OffsetPtr_get m (this + 4)"

definition Vector_end :: "nat \<Rightarrow> mem \<Rightarrow> addr \<Rightarrow> addr" where
  "Vector_end szT m this = OffsetPtr_get m (this + 4) + int (Vector_size m this * szT)"

definition CreateVector :: "nat \<Rightarrow> mem \<Rightarrow> addr \<Rightarrow> nat \<Rightarrow> Vector_content \<times> mem" where
  "CreateVector szT m this size' =
     (case Struct_Allocate m this szT size' of
        (p, m1) \<Rightarrow> (\<lparr>v_size = (if p \<noteq> 0 then size' else 0), v_at = p\<rparr>, m1))"

text \<open>
  \<^verbatim>\<open>Map<K, V>\<close> is a \<^verbatim>\<open>Vector<Pair<K, V> >\<close>; \<open>szP\<close> is \<^verbatim>\<open>sizeof(Pair<K, V>)\<close> and the
  member \<open>first\<close> is at offset 0 of a pair.  \<open>keq m p\<close> is the outcome of
  \<^verbatim>\<open>it->first == key\<close> for the pair at \<open>p\<close> (the \<^verbatim>\<open>operator==\<close> of \<^verbatim>\<open>K\<close>, with the key
  fixed).  The loop of \<^verbatim>\<open>find\<close> stops when \<open>it\<close> meets \<open>end()\<close>.
\<close>

partial_function (option) find_loop ::
  "(mem \<Rightarrow> addr \<Rightarrow> bool) \<Rightarrow> nat \<Rightarrow> mem \<Rightarrow> addr \<Rightarrow> addr \<Rightarrow> addr option" where
  "find_loop keq szP m end' it =
     (if it \<noteq> end' \<and> \<not> keq m it then find_loop keq szP m end' (it + int szP)
      else Some it)"

definition Map_find :: "(mem \<Rightarrow> addr \<Rightarrow> bool) \<Rightarrow> nat \<Rightarrow> mem \<Rightarrow> addr \<Rightarrow> addr option" where
  "Map_find keq szP m this =
     find_loop keq szP m (Vector_end szP m this) (Vector_begin m this)"

text \<open>
  \<^verbatim>\<open>Map::operator[] (const K& key)\<close>: the function ends with \<^verbatim>\<open>return *it;\<close>, so the
  reference it hands back denotes the pair at \<open>it\<close>.
\<close>

definition Map_subscript ::
  "(mem \<Rightarrow> addr \<Rightarrow> bool) \<Rightarrow> nat \<Rightarrow> mem \<Rightarrow> addr \<Rightarrow> (error + addr) option" where
  "Map_subscript keq szP m this =
     map_option
       (\<lambda>it. if it = Vector_end szP m this then Inl OutOfRange else Inr it)
       (Map_find keq szP m this)"

definition CreateMap :: "nat \<Rightarrow> mem \<Rightarrow> addr \<Rightarrow> nat \<Rightarrow> Vector_content \<times> mem" where
  "CreateMap szP m this size' = CreateVector szP m this size'"

section \<open>Well-formed blocks\<close>

text \<open>
  The state of a block that \<^verbatim>\<open>InplaceNew\<close> builds and that allocation keeps: the record
  is at least a \<^verbatim>\<open>Struct\<close> (8 bytes); the allocator, when there is one, starts right
  after the record, \<open>sizeof(Allocator) \<le> used_space \<le> capacity\<close>, and the block is
  smaller than 4 GiB.
\<close>

definition wf_block :: "mem \<Rightarrow> addr \<Rightarrow> bool" where
  "wf_block m b =
     (8 \<le> unat (load32 m b) \<and>
      (OffsetPtr_bool m (b + 4) \<longrightarrow>
         OffsetPtr_get m (b + 4) = b + int (unat (load32 m b)) \<and>
         sizeof_Allocator \<le> unat (Allocator_used_space m (OffsetPtr_get m (b + 4))) \<and>
         Allocator_used_space m (OffsetPtr_get m (b + 4))
           \<le> Allocator_capacity m (OffsetPtr_get m (b + 4)) \<and>
         unat (load32 m b) + unat (Allocator_capacity m (OffsetPtr_get m (b + 4))) < 2 ^ 32))"

text \<open>
  A byte-for-byte copy: the \<open>n\<close> bytes from \<open>b'\<close> on in \<open>m'\<close> are the \<open>n\<close> bytes from
  \<open>b\<close> on in \<open>m\<close>.
\<close>

definition byte_copy :: "mem \<Rightarrow> addr \<Rightarrow> mem \<Rightarrow> addr \<Rightarrow> nat \<Rightarrow> bool" where
  "byte_copy m b m' b' n = (\<forall>i \<in> {0 ..< int n}. m' (b' + i) = m (b + i))"

text \<open>
  The size invariant of a list node, in the words of the specification: a node of size
  0 has neither value nor successor (both members are null); a node of size above 0
  has a value, and its size is one more than the size of its successor (or 1 without
  successor).
\<close>

definition List_invariant :: "mem \<Rightarrow> addr \<Rightarrow> bool" where
  "List_invariant m N =
     (if List_size m N = 0
      then \<not> OffsetPtr_bool m (N + 4) \<and> \<not> OffsetPtr_bool m (N + 8)
      else OffsetPtr_bool m (N + 4) \<and>
           List_size m N =
             1 + (if OffsetPtr_bool m (N + 8) then List_size m (List_next m N) else 0))"

text \<open>
  What a read may touch.  \<open>in_block b n a k\<close>: the \<open>k\<close> bytes at \<open>a\<close> lie within the first
  \<open>n\<close> bytes of the block at \<open>b\<close>.  \<open>string_in_block\<close>: the characters at \<open>p\<close> and
  their NUL do.  \<open>List_in_block m b n this index\<close>: the nodes that
  \<^verbatim>\<open>operator[] (index)\<close> visits from \<open>this\<close> on do, and the members it follows are not
  null.  \<open>moved d r\<close> is the result \<open>r\<close> of an indexed access with its address shifted
  by \<open>d\<close>.
\<close>

definition in_block :: "addr \<Rightarrow> nat \<Rightarrow> addr \<Rightarrow> nat \<Rightarrow> bool" where
  "in_block b n a k = (b \<le> a \<and> a + int k \<le> b + int n)"

definition string_in_block :: "mem \<Rightarrow> addr \<Rightarrow> nat \<Rightarrow> addr \<Rightarrow> bool" where
  "string_in_block m b n p =
     (case strlen m p of None \<Rightarrow> False | Some l \<Rightarrow> in_block b n p (l + 1))"

fun List_in_block :: "mem \<Rightarrow> addr \<Rightarrow> nat \<Rightarrow> addr \<Rightarrow> nat \<Rightarrow> bool" where
  "List_in_block m b n this index =
     (in_block b n this sizeof_List \<and>
      (if index \<ge> List_size m this then True
       else if index = 0 then OffsetPtr_bool m (this + 4)
       else OffsetPtr_bool m (this + 8) \<and> List_in_block m b n (List_next m this) (index - 1)))"

declare List_in_block.simps [simp del]

definition moved :: "int \<Rightarrow> error + addr \<Rightarrow> error + addr" where
  "moved d r = (case r of Inl e \<Rightarrow> Inl e | Inr p \<Rightarrow> Inr (p + d))"

section \<open>Concrete inputs\<close>

text \<open>The memory whose bytes are all zero.\<close>

definition mem0 :: mem where
  "mem0 = (\<lambda>_. 0)"

text \<open>
  An allocator at address 100 as its constructor leaves it (capacity 16, used space 8),
  and one whose \<open>used_space\<close> member is smaller than the allocator header.
\<close>

definition alloc16 :: mem where
  "alloc16 = Allocator_ctor mem0 100 16"

definition alloc_low :: mem where
  "alloc_low = store32 (store32 mem0 100 16) 104 4"

text \<open>A block of 128 bytes at address 1000 whose record is a bare \<^verbatim>\<open>Struct\<close>.\<close>

definition blk128 :: mem where
  "blk128 = snd (InplaceNew Struct_ctor 8 mem0 1000 128)"

text \<open>
  The same memory with a second block at address 2000: one of 24 bytes (with an
  allocator), one of 8 bytes (the bare record, no allocator).
\<close>

definition two_blocks :: mem where
  "two_blocks = snd (InplaceNew Struct_ctor 8 blk128 2000 24)"

definition bare_block :: mem where
  "bare_block = snd (InplaceNew Struct_ctor 8 blk128 2000 8)"

text \<open>
  The memory after \<^verbatim>\<open>NewCopy\<close> of the block at 1000 (16 bytes used) into a buffer at
  address 2000.
\<close>

definition full_copy :: mem where
  "full_copy = snd (NewCopy Struct_ctor 8 blk128 2000 1000)"

text \<open>
  A memory with a \<^verbatim>\<open>String\<close> at address 100 whose \<open>data\<close> is null, a \<^verbatim>\<open>String\<close> at
  address 200 whose \<open>data\<close> points to address 300, and NUL bytes at 300 and at 50
  (where an empty string literal may stand).
\<close>

definition str_mem :: mem where
  "str_mem = String_assign mem0 200 300"

text \<open>
  A \<^verbatim>\<open>Map<int32_t, int32_t>\<close> at address 100 holding the pairs \<open>(1, 10)\<close> and \<open>(2, 20)\<close>
  from address 200 on; a pair takes 8 bytes, \<open>first\<close> at offset 0 and \<open>second\<close> at
  offset 4.  The keys are compared as 32-bit values.
\<close>

definition int32_key_eq :: "32 word \<Rightarrow> mem \<Rightarrow> addr \<Rightarrow> bool" where
  "int32_key_eq key m p = (load32 m p = key)"

definition map_mem :: mem where
  "map_mem =
     Vector_assign
       (store32 (store32 (store32 (store32 mem0 200 1) 204 10) 208 2) 212 20)
       100 \<lparr>v_size = 2, v_at = 200\<rparr>"

text \<open>
  A block of 32 bytes at address 1000 for the record
  \<^verbatim>\<open>struct Rec : Struct { List<int32_t> l; }\<close> of 20 bytes: the list \<open>l\<close> is at address
  1008, the allocator at 1020 manages 12 bytes, 4 of them free.  \<open>list_block1\<close> is the
  memory after one \<^verbatim>\<open>int32_t\<close> has been allocated, \<open>resized_block\<close> the memory after the
  descriptor \<open>(0, 1028, null)\<close> has been assigned to \<open>l\<close>.
\<close>

definition Rec_ctor :: "mem \<Rightarrow> addr \<Rightarrow> mem" where
  "Rec_ctor m this = List_ctor (Struct_ctor m this) (this + 8)"

definition list_block :: mem where
  "list_block = snd (InplaceNew Rec_ctor 20 mem0 1000 32)"

definition list_block1 :: mem where
  "list_block1 = store32 (memset0 list_block 1028 4) 1024 12"

definition resized_block :: mem where
  "resized_block = List_assign list_block1 1008 \<lparr>c_size = 0, c_value = 1028, c_next = 0\<rparr>"

text \<open>
  A block of 128 bytes at address 1000 for a record of 32 bytes with a \<^verbatim>\<open>String\<close> at
  offset 8, a \<^verbatim>\<open>List<int32_t>\<close> at offset 12 and a \<^verbatim>\<open>Map<int32_t, int32_t>\<close> at offset
  24.  The string holds \<open>hi\<close> (at 1040), the list holds 5 and 6 (elements at 1043 and
  1059, second node at 1047), the map holds the pair \<open>(7, 9)\<close> (at 1063); 71 bytes are
  used.  \<open>moved_blob\<close> is the memory after these 71 bytes have been copied to address
  3000.
\<close>

definition blob :: mem where
  "blob =
     store32 (store32
     (store32 (OffsetPtr_assign (OffsetPtr_assign (store32
     (store32
     (OffsetPtr_assign (store32
     (OffsetPtr_assign (OffsetPtr_assign (store32
     (OffsetPtr_assign
     (store32 (store32
     (OffsetPtr_assign (store32 (mem0 (1040 := 104, 1041 := 105)) 1000 32) 1004 1032)
       1032 96) 1036 39)
       1008 1040)
       1012 2) 1016 1043) 1020 1047)
       1024 1) 1028 1063)
       1043 5)
       1047 1) 1051 1059) 1055 0)
       1059 6)
       1063 7) 1067 9"

definition moved_blob :: mem where
  "moved_blob = memcpy blob 3000 1000 71"

text \<open>
  A block of 12 bytes at address 1000 without allocator, whose \<^verbatim>\<open>String\<close> at offset 8
  points to the character \<open>A\<close> at address 5000, outside the block; \<open>moved_ext\<close> is the
  memory after the 12 bytes have been copied to address 3000.
\<close>

definition ext_block :: mem where
  "ext_block =
     OffsetPtr_assign (store32 (store32 (mem0 (5000 := 65)) 1000 12) 1004 0) 1008 5000"

definition moved_ext :: mem where
  "moved_ext = memcpy ext_block 3000 1000 12"

section \<open>Loads and stores\<close>

lemma word32_bytes:
  "ucast (ucast w :: 8 word) OR push_bit 8 (ucast (ucast (drop_bit 8 w) :: 8 word)) OR
     push_bit 16 (ucast (ucast (drop_bit 16 w) :: 8 word)) OR
     push_bit 24 (ucast (ucast (drop_bit 24 w) :: 8 word)) = (w :: 32 word)"
proof (rule bit_word_eqI)
  fix n assume "n < LENGTH(32)"
  then have "n < 8 \<or> (8 \<le> n \<and> n < 16) \<or> (16 \<le> n \<and> n < 24) \<or> (24 \<le> n \<and> n < 32)"
    by simp arith
  then show "bit (ucast (ucast w :: 8 word) OR push_bit 8 (ucast (ucast (drop_bit 8 w) :: 8 word)) OR
     push_bit 16 (ucast (ucast (drop_bit 16 w) :: 8 word)) OR
     push_bit 24 (ucast (ucast (drop_bit 24 w) :: 8 word)) :: 32 word) n = bit w n"
    by (elim disjE conjE) (auto simp add: bit_simps)
qed

lemma load32_store32_same [simp]: "load32 (store32 m a w) a = w"
  by (simp add: load32_def store32_def word32_bytes)

lemma store32_frame: "x < a \<or> a + 4 \<le> x \<Longrightarrow> store32 m a w x = m x"
  by (auto simp: store32_def)

lemma load32_cong4:
  "m' a = m a \<Longrightarrow> m' (a + 1) = m (a + 1) \<Longrightarrow> m' (a + 2) = m (a + 2) \<Longrightarrow> m' (a + 3) = m (a + 3)
   \<Longrightarrow> load32 m' a = load32 m a"
  by (simp add: load32_def)

lemma load32_store32_other:
  "a' + 4 \<le> a \<or> a + 4 \<le> a' \<Longrightarrow> load32 (store32 m a w) a' = load32 m a'"
  by (rule load32_cong4) (auto simp: store32_frame)

lemma load32_memset0_other:
  "a + 4 \<le> p \<or> p + int n \<le> a \<Longrightarrow> load32 (memset0 m p n) a = load32 m a"
  by (rule load32_cong4) (auto simp: memset0_def)

lemma memset0_inside: "p \<le> x \<Longrightarrow> x < p + int n \<Longrightarrow> memset0 m p n x = 0"
  by (simp add: memset0_def)

lemma memset0_outside: "x < p \<or> p + int n \<le> x \<Longrightarrow> memset0 m p n x = m x"
  by (auto simp: memset0_def)

lemma load32_memset0_inside:
  "p \<le> a \<Longrightarrow> a + 4 \<le> p + int n \<Longrightarrow> load32 (memset0 m p n) a = 0"
  by (simp add: load32_def memset0_def)

lemma sint_word32_of_int:
  "- (2 ^ 31) \<le> d \<Longrightarrow> d < 2 ^ 31 \<Longrightarrow> sint (word_of_int d :: 32 word) = d"
  by (simp add: sint_sbintrunc' signed_take_bit_int_eq_self)

lemma word32_of_int_eq_0:
  "- (2 ^ 31) \<le> d \<Longrightarrow> d < 2 ^ 31 \<Longrightarrow> (word_of_int d :: 32 word) = 0 \<longleftrightarrow> d = 0"
  using sint_word32_of_int [of d] by auto

lemma get_store_offset:
  assumes "- (2 ^ 31) \<le> d" "d < 2 ^ 31" "d \<noteq> 0"
  shows "OffsetPtr_get (store32 m self (word_of_int d)) self = self + d"
  using sint_word32_of_int [OF assms(1,2)] word32_of_int_eq_0 [OF assms(1,2)] assms(3)
  by (simp add: OffsetPtr_get_def)

lemma get_store_zero: "OffsetPtr_get (store32 m self 0) self = 0"
  by (simp add: OffsetPtr_get_def)

lemma get_assign:
  assumes "p = 0 \<or> (p \<noteq> self \<and> - (2 ^ 31) \<le> p - self \<and> p - self < 2 ^ 31)"
  shows "OffsetPtr_get (OffsetPtr_assign m self p) self = p"
proof (cases "p = 0")
  case True
  then show ?thesis
    by (simp add: OffsetPtr_assign_def to_offset_def get_store_zero)
next
  case False
  with assms have d: "- (2 ^ 31) \<le> p - self" "p - self < 2 ^ 31" "p - self \<noteq> 0"
    by auto
  have "to_offset self p = word_of_int (p - self)"
    using False by (simp add: to_offset_def)
  then show ?thesis
    using get_store_offset [OF d, of m self] by (simp add: OffsetPtr_assign_def)
qed

lemma load32_eq_on:
  "(\<And>x. a \<le> x \<Longrightarrow> x < a + 4 \<Longrightarrow> m' x = m x) \<Longrightarrow> load32 m' a = load32 m a"
  by (rule load32_cong4) simp_all

lemma get_eq_load32:
  "load32 m' a = load32 m a \<Longrightarrow> OffsetPtr_get m' a = OffsetPtr_get m a"
  "load32 m' a = load32 m a \<Longrightarrow> OffsetPtr_bool m' a = OffsetPtr_bool m a"
  by (simp_all add: OffsetPtr_get_def OffsetPtr_bool_def)

lemma unat_of_nat32: "n < 2 ^ 32 \<Longrightarrow> unat (of_nat n :: 32 word) = n"
  by (simp add: unat_of_nat)

lemma uint_of_nat32: "n < 2 ^ 32 \<Longrightarrow> uint (of_nat n :: 32 word) = int n"
proof -
  assume "n < 2 ^ 32"
  then have "unat (of_nat n :: 32 word) = n"
    by (rule unat_of_nat32)
  then show ?thesis
    unfolding uint_nat by simp
qed

lemma memcpy_inside:
  "dst \<le> x \<Longrightarrow> x < dst + int n \<Longrightarrow> memcpy m dst src n x = m (src + (x - dst))"
  by (simp add: memcpy_def)

lemma memcpy_outside: "x < dst \<or> dst + int n \<le> x \<Longrightarrow> memcpy m dst src n x = m x"
  by (auto simp: memcpy_def)

lemma load32_memcpy_inside:
  assumes "dst \<le> a" "a + 4 \<le> dst + int n"
  shows "load32 (memcpy m dst src n) a = load32 m (src + (a - dst))"
proof -
  have "memcpy m dst src n (a + i) = m (src + (a - dst) + i)" if "0 \<le> i" "i < 4" for i
    using that assms by (simp add: memcpy_def algebra_simps)
  from this [of 0] this [of 1] this [of 2] this [of 3] show ?thesis
    by (simp add: load32_def)
qed

lemma load32_memcpy_outside:
  "a + 4 \<le> dst \<or> dst + int n \<le> a \<Longrightarrow> load32 (memcpy m dst src n) a = load32 m a"
  by (rule load32_eq_on) (auto simp: memcpy_def)

lemma get_shift:
  assumes "load32 m' a' = load32 m a"
  shows "OffsetPtr_bool m' a' = OffsetPtr_bool m a"
    and "OffsetPtr_get m' a' = (if OffsetPtr_bool m a then OffsetPtr_get m a + (a' - a) else 0)"
  using assms by (simp_all add: OffsetPtr_bool_def OffsetPtr_get_def)

lemma unat32_less: "unat (w :: 32 word) < 2 ^ 32"
  using unsigned_less [of w] by simp

lemma byte_copyD:
  "byte_copy m b m' b' n \<Longrightarrow> b \<le> x \<Longrightarrow> x < b + int n \<Longrightarrow> m' (x + (b' - b)) = m x"
proof -
  assume c: "byte_copy m b m' b' n" and x: "b \<le> x" "x < b + int n"
  then have "x - b \<in> {0 ..< int n}"
    by simp
  with c have "m' (b' + (x - b)) = m (b + (x - b))"
    unfolding byte_copy_def by (rule bspec)
  then show ?thesis
    by (simp add: algebra_simps)
qed

lemma byte_copy_memcpy: "byte_copy m src (memcpy m dst src n) dst n"
  by (simp add: byte_copy_def memcpy_def)

lemma load32_byte_copy:
  assumes "byte_copy m b m' b' n" "b \<le> a" "a + 4 \<le> b + int n"
  shows "load32 m' (a + (b' - b)) = load32 m a"
proof -
  have "m' (a + i + (b' - b)) = m (a + i)" if "0 \<le> i" "i < 4" for i
    using that assms(2,3) by (intro byte_copyD [OF assms(1)]) auto
  from this [of 0] this [of 1] this [of 2] this [of 3] show ?thesis
    by (simp add: load32_def algebra_simps)
qed

subsection \<open>OffsetPtr: round trip and address law\<close>

text \<open>
  C3 (as amended).  Let \<open>p\<close> be null, or a pointer other than the address of the slot
  itself whose distance from the slot fits the signed 32-bit offset.  Storing \<open>p\<close> by
  assignment from a raw pointer and reading the slot yields \<open>p\<close>; assignment from
  another \<^verbatim>\<open>OffsetPtr\<close> yields the target of that pointer (not its raw offset).  Null is
  stored as the raw offset 0 and a raw offset 0 reads back as null.  A slot with a
  non-null target has that target at the slot's address plus the raw stored offset.
\<close>

theorem OffsetPtr_round_trip:
  "(p = 0 \<or> (p \<noteq> self \<and> - (2 ^ 31) \<le> p - self \<and> p - self < 2 ^ 31)
      \<longrightarrow> OffsetPtr_get (OffsetPtr_assign m self p) self = p) \<and>
   (OffsetPtr_get m other = 0 \<or>
      (OffsetPtr_get m other \<noteq> self \<and> - (2 ^ 31) \<le> OffsetPtr_get m other - self \<and>
       OffsetPtr_get m other - self < 2 ^ 31)
      \<longrightarrow> OffsetPtr_get (OffsetPtr_assign_from m self other) self = OffsetPtr_get m other) \<and>
   load32 (OffsetPtr_assign m self 0) self = 0 \<and>
   OffsetPtr_get (OffsetPtr_assign m self 0) self = 0 \<and>
   (load32 m s = 0 \<longrightarrow> OffsetPtr_get m s = 0) \<and>
   (OffsetPtr_get m s \<noteq> 0 \<longrightarrow> OffsetPtr_get m s = s + sint (load32 m s))"
proof -
  have a: "OffsetPtr_assign_from m self other = OffsetPtr_assign m self (OffsetPtr_get m other)"
    by (simp add: OffsetPtr_assign_from_def OffsetPtr_assign_def)
  show ?thesis
    unfolding a
    by (intro conjI impI get_assign)
       (auto simp: OffsetPtr_assign_def to_offset_def OffsetPtr_get_def split: if_splits)
qed

theorem OffsetPtr_round_trip_witness:
  "OffsetPtr_get (OffsetPtr_assign mem0 100 108) 100 = 108 \<and>
   OffsetPtr_get (OffsetPtr_assign_from (OffsetPtr_assign mem0 100 108) 200 100) 200 = 108 \<and>
   load32 (OffsetPtr_assign mem0 100 108) 100 = 8"
  using OffsetPtr_round_trip [of 108 100 mem0 100 100]
    OffsetPtr_round_trip [of 108 200 "OffsetPtr_assign mem0 100 108" 100 100]
  by (simp add: OffsetPtr_assign_def to_offset_def)

text \<open>
  C3 as stated fails for the pointer to the slot itself: its distance 0 fits the offset
  type, it is stored as 0 and reads back as null.
\<close>

theorem OffsetPtr_self_counterexample:
  "- (2 ^ 31) \<le> (100 :: int) - 100 \<and> (100 :: int) - 100 < 2 ^ 31 \<and>
   OffsetPtr_get (OffsetPtr_assign mem0 100 100) 100 = 0 \<and>
   OffsetPtr_get (OffsetPtr_assign mem0 100 100) 100 \<noteq> 100"
  by (simp add: OffsetPtr_assign_def to_offset_def OffsetPtr_get_def)


section \<open>The bump allocator\<close>

lemma Allocate_fails:
  "count = 0 \<or> (szT * count) mod 2 ^ 64 >
      unat (Allocator_capacity m this - Allocator_used_space m this)
   \<Longrightarrow> Allocate m this szT count = (0, m)"
  by (auto simp: Allocate_def Let_def)

lemma Allocate_succeeds:
  assumes "count \<noteq> 0"
    and "(szT * count) mod 2 ^ 64 \<le>
      unat (Allocator_capacity m this - Allocator_used_space m this)"
  shows "Allocate m this szT count =
     (this + uint (Allocator_used_space m this),
      store32 (memset0 m (this + uint (Allocator_used_space m this)) ((szT * count) mod 2 ^ 64))
        (this + 4)
        (Allocator_used_space
           (memset0 m (this + uint (Allocator_used_space m this)) ((szT * count) mod 2 ^ 64)) this
         + of_nat ((szT * count) mod 2 ^ 64)))"
  using assms by (simp add: Allocate_def Let_def)

lemma alloc16_fields:
  "Allocator_capacity alloc16 100 = 16" "Allocator_used_space alloc16 100 = 8"
  by (simp_all add: alloc16_def Allocator_ctor_def Allocator_capacity_def
      Allocator_used_space_def sizeof_Allocator_def load32_store32_other)

lemma alloc_low_fields:
  "Allocator_capacity alloc_low 100 = 16" "Allocator_used_space alloc_low 100 = 4"
  by (simp_all add: alloc_low_def Allocator_capacity_def
      Allocator_used_space_def load32_store32_other)

lemma Allocate_alloc_low:
  "Allocate alloc_low 100 4 1 = (104, store32 (memset0 alloc_low 104 4) 104 4)"
  using Allocate_succeeds [of 1 4 alloc_low 100]
  by (simp add: alloc_low_fields) (simp add: Allocator_used_space_def load32_memset0_inside)

lemma Allocate_cases:
  assumes count: "0 < count"
    and used8: "sizeof_Allocator \<le> unat (Allocator_used_space m this)"
    and le: "Allocator_used_space m this \<le> Allocator_capacity m this"
  shows "(unat (Allocator_used_space m this) + (szT * count) mod 2 ^ 64
            > unat (Allocator_capacity m this)
          \<longrightarrow> Allocate m this szT count = (0, m)) \<and>
         (unat (Allocator_used_space m this) + (szT * count) mod 2 ^ 64
            \<le> unat (Allocator_capacity m this)
          \<longrightarrow> fst (Allocate m this szT count) = this + int (unat (Allocator_used_space m this)) \<and>
              (\<forall>x. this + int (unat (Allocator_used_space m this)) \<le> x \<and>
                   x < this + int (unat (Allocator_used_space m this))
                         + int ((szT * count) mod 2 ^ 64)
                   \<longrightarrow> snd (Allocate m this szT count) x = 0) \<and>
              unat (Allocator_used_space (snd (Allocate m this szT count)) this)
                = unat (Allocator_used_space m this) + (szT * count) mod 2 ^ 64 \<and>
              Allocator_capacity (snd (Allocate m this szT count)) this
                = Allocator_capacity m this \<and>
              (\<forall>x. x < this + 4 \<longrightarrow> snd (Allocate m this szT count) x = m x))"
proof -
  define used where "used = Allocator_used_space m this"
  define cap where "cap = Allocator_capacity m this"
  define n where "n = (szT * count) mod 2 ^ 64"
  define ptr where "ptr = this + uint used"
  define m1 where "m1 = memset0 m ptr n"
  have avail: "unat (cap - used) = unat cap - unat used"
    using le by (simp add: used_def cap_def unat_sub)
  have ule: "unat used \<le> unat cap"
    using le by (simp add: used_def cap_def word_le_nat_alt)
  have u8: "8 \<le> unat used"
    using used8 by (simp add: used_def sizeof_Allocator_def)
  have "8 \<le> uint used"
    unfolding uint_nat using u8 by linarith
  then have ptr: "ptr = this + int (unat used)" "this + 8 \<le> ptr"
    by (simp_all add: ptr_def)
  have fail: "Allocate m this szT count = (0, m)" if "unat used + n > unat cap"
  proof (intro Allocate_fails disjI2)
    show "unat (Allocator_capacity m this - Allocator_used_space m this) < szT * count mod 2 ^ 64"
      using that avail ule unfolding used_def cap_def n_def by linarith
  qed
  have used1: "Allocator_used_space m1 this = used"
    using ptr(2) by (simp add: Allocator_used_space_def m1_def used_def load32_memset0_other)
  have succ: "Allocate m this szT count = (ptr, store32 m1 (this + 4) (used + of_nat n))"
    if "unat used + n \<le> unat cap"
  proof -
    have "n \<le> unat (cap - used)"
      using that avail by simp
    then show ?thesis
      using count Allocate_succeeds [of count szT m this] used1
      by (simp add: used_def cap_def n_def ptr_def m1_def)
  qed
  have zero: "store32 m1 (this + 4) w x = 0" if "ptr \<le> x" "x < ptr + int n" for w x
    using that ptr(2) by (simp add: store32_frame m1_def memset0_inside)
  have newused: "unat (used + of_nat n) = unat used + n" if "unat used + n \<le> unat cap"
  proof -
    have "unat cap < 2 ^ 32"
      using unsigned_less [of cap] by simp
    then have "unat used + n < 2 ^ 32"
      using that by simp
    then show ?thesis
      by (simp add: unat_word_ariths unat_of_nat)
  qed
  have capsame: "Allocator_capacity (store32 m1 (this + 4) w) this = cap" for w
    using ptr(2)
    by (simp add: Allocator_capacity_def load32_store32_other m1_def load32_memset0_other cap_def)
  have usedafter: "Allocator_used_space (store32 m1 (this + 4) w) this = w" for w
    by (simp add: Allocator_used_space_def)
  have frame: "store32 m1 (this + 4) w x = m x" if "x < this + 4" for w x
    using that ptr(2) by (simp add: store32_frame m1_def memset0_outside)
  show ?thesis
    unfolding used_def [symmetric] cap_def [symmetric] n_def [symmetric]
    using fail succ zero newused capsame usedafter ptr(1) frame
    by (auto simp: used_def [symmetric] cap_def [symmetric] n_def [symmetric])
qed


text \<open>
  C2 (as amended).  A request of \<open>count = 0\<close> elements returns null and leaves the
  memory as it was.  For every allocator state with
  \<open>sizeof(Allocator) \<le> used_space \<le> capacity\<close> and every request of \<open>count \<ge> 1\<close>
  elements, with \<open>n = sizeof(T) * count\<close> as the \<^verbatim>\<open>size_t\<close> product: if
  \<open>used_space + n > capacity\<close> the allocation returns null and leaves the memory as it
  was; otherwise it returns the address of the allocator plus \<open>used_space\<close>, the \<open>n\<close>
  bytes from that address on are zero, \<open>used_space\<close> has grown by exactly \<open>n\<close> and
  \<open>capacity\<close> is unchanged.
\<close>

theorem Allocate_bump:
  "(count = 0 \<longrightarrow> Allocate m this szT count = (0, m)) \<and>
   (0 < count \<and>
    sizeof_Allocator \<le> unat (Allocator_used_space m this) \<and>
    Allocator_used_space m this \<le> Allocator_capacity m this \<longrightarrow>
      (unat (Allocator_used_space m this) + (szT * count) mod 2 ^ 64
            > unat (Allocator_capacity m this)
          \<longrightarrow> Allocate m this szT count = (0, m)) \<and>
      (unat (Allocator_used_space m this) + (szT * count) mod 2 ^ 64
            \<le> unat (Allocator_capacity m this)
          \<longrightarrow> fst (Allocate m this szT count) = this + int (unat (Allocator_used_space m this)) \<and>
              (\<forall>x. this + int (unat (Allocator_used_space m this)) \<le> x \<and>
                   x < this + int (unat (Allocator_used_space m this))
                         + int ((szT * count) mod 2 ^ 64)
                   \<longrightarrow> snd (Allocate m this szT count) x = 0) \<and>
              unat (Allocator_used_space (snd (Allocate m this szT count)) this)
                = unat (Allocator_used_space m this) + (szT * count) mod 2 ^ 64 \<and>
              Allocator_capacity (snd (Allocate m this szT count)) this
                = Allocator_capacity m this))"
proof (intro conjI impI)
  assume "count = 0"
  then show "Allocate m this szT count = (0, m)"
    by (simp add: Allocate_fails)
next
  assume a: "0 < count \<and>
    sizeof_Allocator \<le> unat (Allocator_used_space m this) \<and>
    Allocator_used_space m this \<le> Allocator_capacity m this"
  then have c: "0 < count" "sizeof_Allocator \<le> unat (Allocator_used_space m this)"
    "Allocator_used_space m this \<le> Allocator_capacity m this"
    by simp_all
  note r = Allocate_cases [OF c, of szT]
  {
    assume "unat (Allocator_used_space m this) + (szT * count) mod 2 ^ 64
            > unat (Allocator_capacity m this)"
    then show "Allocate m this szT count = (0, m)"
      using r by simp
  }
  {
    assume le: "unat (Allocator_used_space m this) + (szT * count) mod 2 ^ 64
            \<le> unat (Allocator_capacity m this)"
    show "fst (Allocate m this szT count) = this + int (unat (Allocator_used_space m this))"
      using r le by blast
    show "\<forall>x. this + int (unat (Allocator_used_space m this)) \<le> x \<and>
                   x < this + int (unat (Allocator_used_space m this))
                         + int ((szT * count) mod 2 ^ 64)
                   \<longrightarrow> snd (Allocate m this szT count) x = 0"
      using r le by blast
    show "unat (Allocator_used_space (snd (Allocate m this szT count)) this)
                = unat (Allocator_used_space m this) + (szT * count) mod 2 ^ 64"
      using r le by blast
    show "Allocator_capacity (snd (Allocate m this szT count)) this
                = Allocator_capacity m this"
      using r le by blast
  }
qed

theorem Allocate_bump_witness:
  "Allocate alloc16 100 4 0 = (0, alloc16) \<and>
   fst (Allocate alloc16 100 4 1) = 108 \<and>
   snd (Allocate alloc16 100 4 1) 108 = 0 \<and>
   unat (Allocator_used_space (snd (Allocate alloc16 100 4 1)) 100) = 12 \<and>
   Allocator_capacity (snd (Allocate alloc16 100 4 1)) 100 = 16 \<and>
   Allocate alloc16 100 4 3 = (0, alloc16)"
  using Allocate_bump [of 0 alloc16 100 4] Allocate_bump [of 1 alloc16 100 4]
    Allocate_bump [of 3 alloc16 100 4]
  by (simp add: alloc16_fields sizeof_Allocator_def)

text \<open>
  C2 as stated fails in two ways.  A request of \<open>count = 0\<close> elements returns null
  although \<open>used_space + 0 \<le> capacity\<close>.  And with \<open>used_space\<close> below the size of the
  allocator header (here 4) the zeroed region covers the \<open>used_space\<close> member itself:
  the returned bytes are not zero afterwards and \<open>used_space\<close> has not grown by \<open>n\<close>.
\<close>

theorem Allocate_counterexample:
  "Allocator_used_space alloc16 100 \<le> Allocator_capacity alloc16 100 \<and>
   unat (Allocator_used_space alloc16 100) + 4 * 0 \<le> unat (Allocator_capacity alloc16 100) \<and>
   fst (Allocate alloc16 100 4 0) = 0 \<and>
   fst (Allocate alloc16 100 4 0) \<noteq> 100 + int (unat (Allocator_used_space alloc16 100)) \<and>
   Allocator_used_space alloc_low 100 \<le> Allocator_capacity alloc_low 100 \<and>
   unat (Allocator_used_space alloc_low 100) + 4 * 1 \<le> unat (Allocator_capacity alloc_low 100) \<and>
   fst (Allocate alloc_low 100 4 1) = 104 \<and>
   snd (Allocate alloc_low 100 4 1) 104 \<noteq> 0 \<and>
   unat (Allocator_used_space (snd (Allocate alloc_low 100 4 1)) 100)
     \<noteq> unat (Allocator_used_space alloc_low 100) + 4 * 1"
proof -
  have a: "Allocate alloc16 100 4 0 = (0, alloc16)"
    by (simp add: Allocate_fails)
  have b: "store32 (memset0 alloc_low 104 4) 104 4 104 = 4"
    by (simp add: store32_def)
  have c: "Allocator_used_space (store32 (memset0 alloc_low 104 4) 104 4) 100 = 4"
    by (simp add: Allocator_used_space_def)
  show ?thesis
    using Allocate_alloc_low by (simp add: a b c alloc16_fields alloc_low_fields)
qed

text \<open>
  C10.  Whenever an allocation fails (returns null), the memory after the call is the
  memory before it: \<open>used_space\<close>, \<open>capacity\<close> and every allocated byte are as they
  were.  This holds for \<^verbatim>\<open>Allocator::Allocate\<close> on an allocator object (whose address
  is not null) and for \<^verbatim>\<open>Struct::Allocate\<close>; a request larger than the remaining free
  space is such a failure.
\<close>

theorem Allocate_failure_atomic:
  "(0 < this \<and> fst (Allocate m this szT count) = 0
      \<longrightarrow> snd (Allocate m this szT count) = m) \<and>
   ((szT * count) mod 2 ^ 64 > unat (Allocator_capacity m this - Allocator_used_space m this)
      \<longrightarrow> Allocate m this szT count = (0, m)) \<and>
   ((OffsetPtr_bool m (s + 4) \<longrightarrow> 0 < OffsetPtr_get m (s + 4)) \<and>
    fst (Struct_Allocate m s szT count) = 0
      \<longrightarrow> snd (Struct_Allocate m s szT count) = m)"
proof -
  have a: "snd (Allocate m a szT count) = m"
    if "0 < a" "fst (Allocate m a szT count) = 0" for a
  proof (cases "count = 0 \<or> (szT * count) mod 2 ^ 64 >
      unat (Allocator_capacity m a - Allocator_used_space m a)")
    case True
    then show ?thesis by (simp add: Allocate_fails)
  next
    case False
    then have "fst (Allocate m a szT count) = a + uint (Allocator_used_space m a)"
      by (simp add: Allocate_succeeds)
    moreover have "0 \<le> uint (Allocator_used_space m a)"
      by simp
    ultimately show ?thesis
      using that by linarith
  qed
  show ?thesis
    using a [of this] a [of "OffsetPtr_get m (s + 4)"]
    by (auto simp: Allocate_fails Struct_Allocate_def)
qed

theorem Allocate_failure_atomic_witness:
  "fst (Allocate alloc16 100 4 3) = 0 \<and>
   snd (Allocate alloc16 100 4 3) = alloc16 \<and>
   Allocate alloc16 100 3 4 = (0, alloc16)"
  using Allocate_failure_atomic [of 100 alloc16 4 3 0] Allocate_failure_atomic [of 100 alloc16 3 4 0]
  by (simp add: alloc16_fields Allocate_def)

section \<open>Construction and capacity accounting\<close>

lemma Init_no_free:
  "Init szS m b 0 = store32 (store32 m b (of_nat szS)) (b + 4) 0"
  by (simp add: Init_def OffsetPtr_assign_def to_offset_def)

lemma Init_free:
  assumes "fs \<noteq> 0" "0 \<le> b" "8 \<le> szS" "szS < 2 ^ 31"
  shows "Init szS m b fs =
    store32 (store32 (store32 (store32 m b (of_nat szS)) (b + int szS) (of_nat fs))
      (b + int szS + 4) 8) (b + 4) (word_of_int (int szS - 4))"
proof -
  have "szS < 2 ^ 32"
    using assms(4) by simp
  then have u: "uint (of_nat szS :: 32 word) = int szS"
    by (rule uint_of_nat32)
  have "b + int szS \<noteq> 0"
    using assms(2,3) by linarith
  then have "to_offset (b + 4) (b + int szS) = word_of_int (int szS - 4)"
    by (simp add: to_offset_def)
  then show ?thesis
    using assms(1)
    by (simp add: Init_def Let_def u OffsetPtr_assign_def Allocator_ctor_def sizeof_Allocator_def)
qed

lemma offset_szS:
  assumes "8 \<le> szS" "szS < 2 ^ 31"
  shows "(word_of_int (int szS - 4) :: 32 word) \<noteq> 0"
    and "sint (word_of_int (int szS - 4) :: 32 word) = int szS - 4"
proof -
  have r: "- (2 ^ 31) \<le> int szS - 4" "int szS - 4 < 2 ^ 31"
    using assms by simp_all
  show "sint (word_of_int (int szS - 4) :: 32 word) = int szS - 4"
    using r by (rule sint_word32_of_int)
  show "(word_of_int (int szS - 4) :: 32 word) \<noteq> 0"
    using word32_of_int_eq_0 [OF r] assms(1) by simp
qed

lemma Init_fields:
  assumes "0 \<le> b" "8 \<le> szS" "szS < 2 ^ 31"
  shows "load32 (Init szS m b fs) b = of_nat szS"
    and "OffsetPtr_bool (Init szS m b fs) (b + 4) \<longleftrightarrow> fs \<noteq> 0"
    and "fs \<noteq> 0 \<Longrightarrow> OffsetPtr_get (Init szS m b fs) (b + 4) = b + int szS"
    and "fs \<noteq> 0 \<Longrightarrow> Allocator_capacity (Init szS m b fs) (b + int szS) = of_nat fs"
    and "fs \<noteq> 0 \<Longrightarrow> Allocator_used_space (Init szS m b fs) (b + int szS) = 8"
proof -
  have s8: "8 \<le> int szS"
    using assms(2) by simp
  show "load32 (Init szS m b fs) b = of_nat szS"
  proof (cases "fs = 0")
    case True
    then show ?thesis
      by (simp add: Init_no_free load32_store32_other)
  next
    case False
    show ?thesis
      unfolding Init_free [OF False assms] using s8 by (simp add: load32_store32_other)
  qed
  have off: "load32 (Init szS m b fs) (b + 4) = word_of_int (int szS - 4)" if "fs \<noteq> 0"
    unfolding Init_free [OF that assms] by simp
  show "OffsetPtr_bool (Init szS m b fs) (b + 4) \<longleftrightarrow> fs \<noteq> 0"
  proof (cases "fs = 0")
    case True
    then show ?thesis
      by (simp add: Init_no_free OffsetPtr_bool_def)
  next
    case False
    then show ?thesis
      using off offset_szS(1) [OF assms(2,3)] by (simp add: OffsetPtr_bool_def)
  qed
  show "OffsetPtr_get (Init szS m b fs) (b + 4) = b + int szS" if "fs \<noteq> 0"
    using off [OF that] offset_szS [OF assms(2,3)] by (simp add: OffsetPtr_get_def)
  show "Allocator_capacity (Init szS m b fs) (b + int szS) = of_nat fs" if "fs \<noteq> 0"
    unfolding Init_free [OF that assms] using s8
    by (simp add: Allocator_capacity_def load32_store32_other)
  show "Allocator_used_space (Init szS m b fs) (b + int szS) = 8" if "fs \<noteq> 0"
    unfolding Init_free [OF that assms] using s8
    by (simp add: Allocator_used_space_def load32_store32_other)
qed

lemma Init_capacity:
  assumes "0 \<le> b" "8 \<le> szS" "szS < 2 ^ 31"
  shows "Struct_capacity (Init szS m b fs) b = unat (of_nat szS + of_nat fs :: 32 word)"
  using Init_fields [OF assms, where m = m and fs = fs]
  by (cases "fs = 0") (simp_all add: Struct_capacity_def)

lemma Init_used_space:
  assumes "0 \<le> b" "8 \<le> szS" "szS < 2 ^ 31"
  shows "Struct_used_space (Init szS m b fs) b = (if fs = 0 then szS else szS + 8)"
proof -
  have "szS + 8 < 2 ^ 32" "szS < 2 ^ 32"
    using assms(3) by simp_all
  then have "unat (of_nat szS + 8 :: 32 word) = szS + 8" "unat (of_nat szS :: 32 word) = szS"
    using unat_of_nat32 [of "szS + 8"] unat_of_nat32 [of szS] by simp_all
  then show ?thesis
    using Init_fields [OF assms, where m = m and fs = fs]
    by (cases "fs = 0") (simp_all add: Struct_used_space_def)
qed

lemma word32_of_nat_wrap:
  assumes "szS < 2 ^ 64" "N < 2 ^ 64"
  shows "(of_nat szS + of_nat ((N + 2 ^ 64 - szS) mod 2 ^ 64) :: 32 word) = of_nat N"
proof -
  have "(of_nat szS + of_nat ((N + 2 ^ 64 - szS) mod 2 ^ 64) :: 32 word)
      = of_nat (szS + (N + 2 ^ 64 - szS) mod 2 ^ 64)"
    by simp
  also have "\<dots> = of_nat N"
  proof (cases "szS \<le> N")
    case True
    then have "(N + 2 ^ 64 - szS) mod 2 ^ 64 = N - szS"
      using assms by (simp add: mod_if)
    then show ?thesis
      using True by simp
  next
    case False
    then have "(N + 2 ^ 64 - szS) mod 2 ^ 64 = N + 2 ^ 64 - szS"
      using assms by simp
    then have "szS + (N + 2 ^ 64 - szS) mod 2 ^ 64 = N + 2 ^ 32 * 2 ^ 32"
      using assms by simp
    then show ?thesis
      by (simp add: word_of_nat_eq_iff take_bit_eq_mod)
  qed
  finally show ?thesis .
qed

lemma InplaceNew_capacity:
  assumes "0 \<le> b" "8 \<le> szS" "szS < 2 ^ 31" "N < 2 ^ 32"
  shows "Struct_capacity (snd (InplaceNew ctor szS m b N)) b = N"
proof -
  have lt: "szS < 2 ^ 64" "N < 2 ^ 64"
    using assms(3,4) by simp_all
  have "Struct_capacity (snd (InplaceNew ctor szS m b N)) b
      = unat (of_nat szS + of_nat ((N + 2 ^ 64 - szS) mod 2 ^ 64) :: 32 word)"
    unfolding InplaceNew_def snd_conv by (rule Init_capacity [OF assms(1-3)])
  also have "\<dots> = unat (of_nat N :: 32 word)"
    by (simp only: word32_of_nat_wrap [OF lt])
  also have "\<dots> = N"
    by (rule unat_of_nat32 [OF assms(4)])
  finally show ?thesis .
qed

lemma wf_blockD:
  assumes "wf_block m b" "OffsetPtr_bool m (b + 4)"
  shows "OffsetPtr_get m (b + 4) = b + int (unat (load32 m b))"
    and "sizeof_Allocator \<le> unat (Allocator_used_space m (b + int (unat (load32 m b))))"
    and "Allocator_used_space m (b + int (unat (load32 m b)))
           \<le> Allocator_capacity m (b + int (unat (load32 m b)))"
    and "unat (load32 m b) + unat (Allocator_capacity m (b + int (unat (load32 m b)))) < 2 ^ 32"
  using assms unfolding wf_block_def by auto

lemma wf_block_size: "wf_block m b \<Longrightarrow> 8 \<le> unat (load32 m b)"
  by (simp add: wf_block_def)

lemma Struct_Allocate_wf:
  assumes wf: "wf_block m b" and b: "0 \<le> b"
  shows "Struct_capacity (snd (Struct_Allocate m b szT count)) b = Struct_capacity m b"
    and "Struct_used_space (snd (Struct_Allocate m b szT count)) b =
           Struct_used_space m b +
           (if fst (Struct_Allocate m b szT count) = 0 then 0 else (szT * count) mod 2 ^ 64)"
    and "wf_block (snd (Struct_Allocate m b szT count)) b"
proof -
  define ss where "ss = unat (load32 m b)"
  define A where "A = b + int ss"
  define r where "r = Struct_Allocate m b szT count"
  have goal: "Struct_capacity (snd r) b = Struct_capacity m b \<and>
      Struct_used_space (snd r) b =
        Struct_used_space m b + (if fst r = 0 then 0 else (szT * count) mod 2 ^ 64) \<and>
      wf_block (snd r) b"
  proof (cases "fst r = 0 \<and> snd r = m")
    case True
    then show ?thesis
      using wf by simp
  next
    case False
    then have al: "OffsetPtr_bool m (b + 4)"
      by (auto simp: r_def Struct_Allocate_def split: if_splits)
    have count: "0 < count"
    proof (rule ccontr)
      assume "\<not> 0 < count"
      then have "r = (0, m)"
        using al by (simp add: r_def Struct_Allocate_def Allocate_fails)
      with False show False by simp
    qed
    have ss8: "8 \<le> ss"
      using wf by (simp add: ss_def wf_block_size)
    have A: "OffsetPtr_get m (b + 4) = A"
      and u8: "sizeof_Allocator \<le> unat (Allocator_used_space m A)"
      and le: "Allocator_used_space m A \<le> Allocator_capacity m A"
      and lt: "ss + unat (Allocator_capacity m A) < 2 ^ 32"
      using wf_blockD [OF wf al] by (simp_all add: A_def ss_def)
    have r: "r = Allocate m A szT count"
      using al A by (simp add: r_def Struct_Allocate_def)
    note c = Allocate_cases [OF count u8 le, of szT, folded r]
    have notfail: "unat (Allocator_used_space m A) + (szT * count) mod 2 ^ 64
        \<le> unat (Allocator_capacity m A)"
      using c False by (cases r) auto
    have fst_r: "fst r = A + int (unat (Allocator_used_space m A))"
      and used: "unat (Allocator_used_space (snd r) A) =
                   unat (Allocator_used_space m A) + (szT * count) mod 2 ^ 64"
      and cap: "Allocator_capacity (snd r) A = Allocator_capacity m A"
      and frame: "\<And>x. x < A + 4 \<Longrightarrow> snd r x = m x"
      using c notfail by auto
    have "fst r \<noteq> 0"
      using fst_r b ss8 unfolding A_def by linarith
    have hdr: "load32 (snd r) b = load32 m b" "load32 (snd r) (b + 4) = load32 m (b + 4)"
      by (rule load32_eq_on, rule frame, use ss8 in \<open>simp add: A_def\<close>)+
    have ptr: "OffsetPtr_bool (snd r) (b + 4)" "OffsetPtr_get (snd r) (b + 4) = A"
      using al A get_eq_load32 [OF hdr(2)] by simp_all
    have ule: "unat (Allocator_used_space m A) \<le> unat (Allocator_capacity m A)"
      using le by (simp add: word_le_nat_alt)
    have sum: "unat (load32 m b + w) = ss + unat w" if "unat w \<le> unat (Allocator_capacity m A)" for w
      using that lt by (simp add: ss_def unat_word_ariths)
    have "Struct_capacity (snd r) b = Struct_capacity m b"
      using hdr ptr al A cap by (simp add: Struct_capacity_def)
    moreover have "Struct_used_space (snd r) b = Struct_used_space m b + (szT * count) mod 2 ^ 64"
      using hdr ptr al A used notfail ule
      by (simp add: Struct_used_space_def sum)
    moreover have "wf_block (snd r) b"
      unfolding wf_block_def
      using hdr ptr cap used notfail u8 lt ss8
      by (simp add: ss_def [symmetric] A_def [symmetric] word_le_nat_alt)
    ultimately show ?thesis
      using \<open>fst r \<noteq> 0\<close> by simp
  qed
  then show "Struct_capacity (snd (Struct_Allocate m b szT count)) b = Struct_capacity m b"
    and "Struct_used_space (snd (Struct_Allocate m b szT count)) b =
           Struct_used_space m b +
           (if fst (Struct_Allocate m b szT count) = 0 then 0 else (szT * count) mod 2 ^ 64)"
    and "wf_block (snd (Struct_Allocate m b szT count)) b"
    by (simp_all add: r_def)
qed

lemma InplaceNew_no_free:
  assumes "szS < 2 ^ 64" "N < 2 ^ 64"
  shows "(N + 2 ^ 64 - szS) mod 2 ^ 64 = 0 \<longleftrightarrow> N = (szS :: nat)"
proof (cases "szS \<le> N")
  case True
  then have "(N + 2 ^ 64 - szS) mod 2 ^ 64 = N - szS"
    using assms by (simp add: mod_if)
  then show ?thesis
    using True by simp
next
  case False
  then have "(N + 2 ^ 64 - szS) mod 2 ^ 64 = N + 2 ^ 64 - szS"
    using assms by simp
  then show ?thesis
    using False assms by simp
qed

lemma InplaceNew_used_space:
  assumes "0 \<le> b" "8 \<le> szS" "szS < 2 ^ 31" "N < 2 ^ 32"
  shows "Struct_used_space (snd (InplaceNew ctor szS m b N)) b =
           (if N = szS then szS else szS + sizeof_Allocator)"
proof -
  have lt: "szS < 2 ^ 64" "N < 2 ^ 64"
    using assms(3,4) by simp_all
  show ?thesis
    unfolding InplaceNew_def snd_conv Init_used_space [OF assms(1-3)]
      InplaceNew_no_free [OF lt] sizeof_Allocator_def ..
qed

lemma InplaceNew_wf:
  assumes "0 \<le> b" "8 \<le> szS" "szS < 2 ^ 31" "N < 2 ^ 32" "N = szS \<or> szS + 8 \<le> N"
  shows "wf_block (snd (InplaceNew ctor szS m b N)) b"
proof -
  define fs where "fs = (N + 2 ^ 64 - szS) mod 2 ^ 64"
  define m' where "m' = Init szS (ctor m b) b fs"
  have lt: "szS < 2 ^ 64" "N < 2 ^ 64" "szS < 2 ^ 32"
    using assms(3,4) by simp_all
  have fs: "fs = N - szS"
    using assms(5) lt by (auto simp: fs_def mod_if)
  note f = Init_fields [OF assms(1-3), where m = "ctor m b" and fs = fs, folded m'_def]
  have ss: "unat (load32 m' b) = szS"
    using f(1) lt(3) by (simp add: unat_of_nat32)
  have "wf_block m' b"
  proof (cases "fs = 0")
    case True
    then show ?thesis
      using f(2) ss assms(2) by (simp add: wf_block_def)
  next
    case False
    then have "8 \<le> fs" "fs < 2 ^ 32" "szS + fs < 2 ^ 32"
      using fs assms(4,5) by auto
    then have "unat (of_nat fs :: 32 word) = fs" "(8 :: 32 word) \<le> of_nat fs"
      by (simp_all add: unat_of_nat32 word_le_nat_alt)
    then show ?thesis
      using f False ss assms(2) \<open>szS + fs < 2 ^ 32\<close>
      by (simp add: wf_block_def sizeof_Allocator_def)
  qed
  then show ?thesis
    by (simp add: InplaceNew_def m'_def fs_def)
qed

lemma wf_block_sums:
  assumes "wf_block m b"
  shows "Struct_capacity m b =
           unat (load32 m b) +
           (if OffsetPtr_bool m (b + 4)
            then unat (Allocator_capacity m (b + int (unat (load32 m b)))) else 0)"
    and "Struct_used_space m b =
           unat (load32 m b) +
           (if OffsetPtr_bool m (b + 4)
            then unat (Allocator_used_space m (b + int (unat (load32 m b)))) else 0)"
    and "Struct_used_space m b \<le> Struct_capacity m b"
proof -
  show c: "Struct_capacity m b =
           unat (load32 m b) +
           (if OffsetPtr_bool m (b + 4)
            then unat (Allocator_capacity m (b + int (unat (load32 m b)))) else 0)"
  proof (cases "OffsetPtr_bool m (b + 4)")
    case True
    then show ?thesis
      using wf_blockD [OF assms True] by (simp add: Struct_capacity_def unat_word_ariths)
  next
    case False
    then show ?thesis by (simp add: Struct_capacity_def)
  qed
  show u: "Struct_used_space m b =
           unat (load32 m b) +
           (if OffsetPtr_bool m (b + 4)
            then unat (Allocator_used_space m (b + int (unat (load32 m b)))) else 0)"
  proof (cases "OffsetPtr_bool m (b + 4)")
    case True
    then show ?thesis
      using wf_blockD [OF assms True]
      by (simp add: Struct_used_space_def unat_word_ariths word_le_nat_alt)
  next
    case False
    then show ?thesis by (simp add: Struct_used_space_def)
  qed
  show "Struct_used_space m b \<le> Struct_capacity m b"
  proof (cases "OffsetPtr_bool m (b + 4)")
    case True
    then show ?thesis
      unfolding c u using wf_blockD(3) [OF assms True] by (simp add: word_le_nat_alt)
  next
    case False
    then show ?thesis
      unfolding c u by simp
  qed
qed

lemma blk128_wf: "wf_block blk128 1000"
  unfolding blk128_def by (rule InplaceNew_wf) simp_all

lemma blk128_fields:
  "load32 blk128 1000 = 8" "OffsetPtr_bool blk128 1004" "OffsetPtr_get blk128 1004 = 1008"
  "Allocator_capacity blk128 1008 = 120" "Allocator_used_space blk128 1008 = 8"
  using Init_fields [where b = 1000 and szS = 8 and m = "Struct_ctor mem0 1000" and fs = 120]
  by (simp_all add: blk128_def InplaceNew_def)

text \<open>
  C5 (as amended).  A block constructed with requested capacity \<open>N\<close> reports
  \<open>capacity() = N\<close>, the total bytes owned, and
  \<open>used_space() = sizeof(S) + (N = sizeof(S) ? 0 : sizeof(Allocator))\<close>.  For every
  well-formed block \<open>capacity()\<close> is \<open>struct_size + (allocator ? allocator.capacity : 0)\<close>
  and \<open>used_space()\<close> is \<open>struct_size + (allocator ? allocator.used_space : 0)\<close>: both
  allocator members count the allocator header, and \<open>sizeof(Allocator)\<close> is not
  subtracted.  An allocation leaves \<open>capacity()\<close> as it was and, when it succeeds, adds
  the bytes it hands out to \<open>used_space()\<close>.
\<close>

theorem capacity_accounting:
  "(0 \<le> b \<and> 8 \<le> szS \<and> szS < 2 ^ 31 \<and> N < 2 ^ 32 \<longrightarrow>
      Struct_capacity (snd (InplaceNew ctor szS m b N)) b = N \<and>
      Struct_used_space (snd (InplaceNew ctor szS m b N)) b =
        (if N = szS then szS else szS + sizeof_Allocator)) \<and>
   (wf_block m' b' \<longrightarrow>
      Struct_capacity m' b' =
        unat (load32 m' b') +
        (if OffsetPtr_bool m' (b' + 4)
         then unat (Allocator_capacity m' (OffsetPtr_get m' (b' + 4))) else 0) \<and>
      Struct_used_space m' b' =
        unat (load32 m' b') +
        (if OffsetPtr_bool m' (b' + 4)
         then unat (Allocator_used_space m' (OffsetPtr_get m' (b' + 4))) else 0)) \<and>
   (wf_block m' b' \<and> 0 \<le> b' \<longrightarrow>
      Struct_capacity (snd (Struct_Allocate m' b' szT count)) b' = Struct_capacity m' b' \<and>
      Struct_used_space (snd (Struct_Allocate m' b' szT count)) b' =
        Struct_used_space m' b' +
        (if fst (Struct_Allocate m' b' szT count) = 0 then 0 else (szT * count) mod 2 ^ 64))"
proof (intro conjI impI; (elim conjE)?)
  show "Struct_capacity m' b' =
        unat (load32 m' b') +
        (if OffsetPtr_bool m' (b' + 4)
         then unat (Allocator_capacity m' (OffsetPtr_get m' (b' + 4))) else 0)"
    if "wf_block m' b'"
    using wf_block_sums(1) [OF that] wf_blockD(1) [OF that] by simp
  show "Struct_used_space m' b' =
        unat (load32 m' b') +
        (if OffsetPtr_bool m' (b' + 4)
         then unat (Allocator_used_space m' (OffsetPtr_get m' (b' + 4))) else 0)"
    if "wf_block m' b'"
    using wf_block_sums(2) [OF that] wf_blockD(1) [OF that] by simp
qed (simp_all add: InplaceNew_capacity InplaceNew_used_space Struct_Allocate_wf)

theorem capacity_accounting_witness:
  "Struct_capacity blk128 1000 = 128 \<and> Struct_used_space blk128 1000 = 16 \<and>
   Struct_capacity blk128 1000 = 8 + 120 \<and> Struct_used_space blk128 1000 = 8 + 8 \<and>
   fst (Struct_Allocate blk128 1000 4 3) \<noteq> 0 \<and>
   Struct_capacity (snd (Struct_Allocate blk128 1000 4 3)) 1000 = 128 \<and>
   Struct_used_space (snd (Struct_Allocate blk128 1000 4 3)) 1000 = 28"
proof -
  have a: "fst (Struct_Allocate blk128 1000 4 3) = 1016"
    by (simp add: Struct_Allocate_def blk128_fields Allocate_succeeds)
  show ?thesis
    using capacity_accounting [of 1000 8 128 Struct_ctor mem0 blk128 1000 4 3] blk128_wf a
    by (simp add: blk128_fields sizeof_Allocator_def flip: blk128_def)
qed

text \<open>
  C5 as stated fails: for the block of 128 bytes the formulas with
  \<open>- sizeof(Allocator)\<close> give 120 and 8, while \<open>capacity()\<close> is 128 (the capacity
  requested at construction) and \<open>used_space()\<close> is 16.
\<close>

theorem capacity_formula_counterexample:
  "OffsetPtr_bool blk128 1004 \<and>
   Struct_capacity blk128 1000 = 128 \<and>
   unat (load32 blk128 1000) +
     (unat (Allocator_capacity blk128 (OffsetPtr_get blk128 1004)) - sizeof_Allocator) = 120 \<and>
   Struct_capacity blk128 1000 \<noteq>
     unat (load32 blk128 1000) +
       (unat (Allocator_capacity blk128 (OffsetPtr_get blk128 1004)) - sizeof_Allocator) \<and>
   Struct_used_space blk128 1000 = 16 \<and>
   unat (load32 blk128 1000) +
     (unat (Allocator_used_space blk128 (OffsetPtr_get blk128 1004)) - sizeof_Allocator) = 8 \<and>
   Struct_used_space blk128 1000 \<noteq>
     unat (load32 blk128 1000) +
       (unat (Allocator_used_space blk128 (OffsetPtr_get blk128 1004)) - sizeof_Allocator)"
  by (simp add: blk128_fields Struct_capacity_def Struct_used_space_def sizeof_Allocator_def)

section \<open>Copy\<close>

lemma Copy_fails:
  "src = 0 \<or> Struct_capacity m this < Struct_used_space m src \<Longrightarrow> Copy m this src = (False, m)"
  by (auto simp: Copy_def)

lemma Copy_succeeds:
  "\<not> (src = 0 \<or> Struct_capacity m this < Struct_used_space m src) \<Longrightarrow>
   Copy m this src =
     (True,
      if OffsetPtr_bool (memcpy m this src (Struct_used_space m src)) (this + 4)
      then store32 (memcpy m this src (Struct_used_space m src))
             (OffsetPtr_get (memcpy m this src (Struct_used_space m src)) (this + 4))
             (of_nat (Struct_capacity m this)
                - load32 (memcpy m this src (Struct_used_space m src)) this)
      else memcpy m this src (Struct_used_space m src))"
  by (simp add: Copy_def Let_def)

lemma unat_Struct_capacity: "(of_nat (Struct_capacity m b) :: 32 word) =
    load32 m b + (if OffsetPtr_bool m (b + 4)
        then Allocator_capacity m (OffsetPtr_get m (b + 4)) else 0)"
  by (simp add: Struct_capacity_def)

lemma Struct_capacity_less: "Struct_capacity m b < 2 ^ 32"
  unfolding Struct_capacity_def by (rule unat32_less)

lemma Copy_wf:
  assumes ok: "\<not> (src = 0 \<or> Struct_capacity m this < Struct_used_space m src)"
    and wf: "wf_block m src"
  shows "snd (Copy m this src) =
      (if OffsetPtr_bool m (src + 4)
       then store32 (memcpy m this src (Struct_used_space m src))
              (this + int (unat (load32 m src)))
              (of_nat (Struct_capacity m this) - load32 m src)
       else memcpy m this src (Struct_used_space m src))"
    and "8 \<le> Struct_used_space m src"
    and "OffsetPtr_bool m (src + 4) \<Longrightarrow>
           unat (load32 m src) + 8 \<le> Struct_used_space m src"
proof -
  define n where "n = Struct_used_space m src"
  define ss where "ss = unat (load32 m src)"
  define m1 where "m1 = memcpy m this src n"
  have ss8: "8 \<le> ss"
    using wf by (simp add: ss_def wf_block_size)
  have n: "n = ss + (if OffsetPtr_bool m (src + 4)
            then unat (Allocator_used_space m (src + int ss)) else 0)"
    using wf_block_sums(2) [OF wf] by (simp add: n_def ss_def)
  then show n8: "8 \<le> Struct_used_space m src"
    using ss8 by (simp add: n_def)
  show big: "unat (load32 m src) + 8 \<le> Struct_used_space m src"
    if "OffsetPtr_bool m (src + 4)"
    using n wf_blockD(2) [OF wf that] that
    by (simp add: n_def [symmetric] ss_def [symmetric] sizeof_Allocator_def)
  have h0: "load32 m1 this = load32 m src"
    using load32_memcpy_inside [of this this n m src] n8 by (simp add: m1_def n_def)
  have h4: "load32 m1 (this + 4) = load32 m (src + 4)"
    using load32_memcpy_inside [of this "this + 4" n m src] n8 by (simp add: m1_def n_def)
  note g = get_shift [OF h4]
  show "snd (Copy m this src) =
      (if OffsetPtr_bool m (src + 4)
       then store32 (memcpy m this src (Struct_used_space m src))
              (this + int (unat (load32 m src)))
              (of_nat (Struct_capacity m this) - load32 m src)
       else memcpy m this src (Struct_used_space m src))"
  proof (cases "OffsetPtr_bool m (src + 4)")
    case True
    have "OffsetPtr_get m1 (this + 4) = this + int ss"
      using g(2) True wf_blockD(1) [OF wf True] by (simp add: ss_def)
    then show ?thesis
      using True g(1) h0
      by (simp add: Copy_succeeds [OF ok] n_def [symmetric] m1_def [symmetric] ss_def)
  next
    case False
    then show ?thesis
      using g(1) by (simp add: Copy_succeeds [OF ok] n_def [symmetric] m1_def [symmetric])
  qed
qed


lemma Copy_result:
  assumes ok: "\<not> (src = 0 \<or> Struct_capacity m this < Struct_used_space m src)"
    and wf: "wf_block m src"
  shows "load32 (snd (Copy m this src)) this = load32 m src"
    and "OffsetPtr_bool (snd (Copy m this src)) (this + 4) = OffsetPtr_bool m (src + 4)"
    and "OffsetPtr_bool m (src + 4) \<Longrightarrow>
           OffsetPtr_get (snd (Copy m this src)) (this + 4) = this + int (unat (load32 m src))"
    and "OffsetPtr_bool m (src + 4) \<Longrightarrow>
           Allocator_capacity (snd (Copy m this src)) (this + int (unat (load32 m src)))
             = of_nat (Struct_capacity m this) - load32 m src"
    and "OffsetPtr_bool m (src + 4) \<Longrightarrow>
           Allocator_used_space (snd (Copy m this src)) (this + int (unat (load32 m src)))
             = Allocator_used_space m (src + int (unat (load32 m src)))"
proof -
  define n where "n = Struct_used_space m src"
  define ss where "ss = unat (load32 m src)"
  define m1 where "m1 = memcpy m this src n"
  define w where "w = (of_nat (Struct_capacity m this) - load32 m src :: 32 word)"
  note c = Copy_wf [OF ok wf, folded n_def ss_def m1_def w_def]
  have ss8: "8 \<le> int ss"
    unfolding ss_def using wf_block_size [OF wf] by linarith
  have n8: "8 \<le> int n"
    using c(2) by simp
  have h0: "load32 m1 this = load32 m src"
    using load32_memcpy_inside [of this this n m src] n8 by (simp add: m1_def)
  have h4: "load32 m1 (this + 4) = load32 m (src + 4)"
    using load32_memcpy_inside [of this "this + 4" n m src] n8 by (simp add: m1_def)
  have s0: "load32 (store32 m1 (this + int ss) w) this = load32 m1 this"
    and s4: "load32 (store32 m1 (this + int ss) w) (this + 4) = load32 m1 (this + 4)"
    using ss8 by (simp_all add: load32_store32_other)
  show "load32 (snd (Copy m this src)) this = load32 m src"
    unfolding c(1) using h0 s0 by (simp add: m1_def)
  have l4: "load32 (snd (Copy m this src)) (this + 4) = load32 m (src + 4)"
    unfolding c(1) using h4 s4 by (simp add: m1_def)
  note g = get_shift [OF l4]
  show "OffsetPtr_bool (snd (Copy m this src)) (this + 4) = OffsetPtr_bool m (src + 4)"
    by (rule g(1))
  show "OffsetPtr_get (snd (Copy m this src)) (this + 4) = this + int (unat (load32 m src))"
    if "OffsetPtr_bool m (src + 4)"
    using g(2) that wf_blockD(1) [OF wf that] by simp
  show "Allocator_capacity (snd (Copy m this src)) (this + int (unat (load32 m src)))
             = of_nat (Struct_capacity m this) - load32 m src"
    if "OffsetPtr_bool m (src + 4)"
    unfolding c(1) using that
    by (simp add: Allocator_capacity_def ss_def [symmetric] w_def [symmetric])
  show "Allocator_used_space (snd (Copy m this src)) (this + int (unat (load32 m src)))
             = Allocator_used_space m (src + int (unat (load32 m src)))"
    if al: "OffsetPtr_bool m (src + 4)"
  proof -
    have "int ss + 8 \<le> int n"
      using c(3) [OF al] by simp
    then have "load32 m1 (this + int ss + 4) = load32 m (src + int ss + 4)"
      using load32_memcpy_inside [of this "this + int ss + 4" n m src] ss8
      by (simp add: m1_def algebra_simps)
    then show ?thesis
      unfolding c(1) using al
      by (simp add: Allocator_used_space_def ss_def [symmetric] w_def [symmetric]
          load32_store32_other m1_def)
  qed
qed

lemma Copy_sizes:
  assumes ok: "\<not> (src = 0 \<or> Struct_capacity m this < Struct_used_space m src)"
    and wf: "wf_block m src"
  shows "Struct_used_space (snd (Copy m this src)) this = Struct_used_space m src"
    and "Struct_capacity (snd (Copy m this src)) this =
           (if OffsetPtr_bool m (src + 4) then Struct_capacity m this
            else Struct_used_space m src)"
proof -
  note r = Copy_result [OF ok wf]
  show "Struct_used_space (snd (Copy m this src)) this = Struct_used_space m src"
  proof (cases "OffsetPtr_bool m (src + 4)")
    case True
    then show ?thesis
      using r wf_blockD(1) [OF wf True] by (simp add: Struct_used_space_def)
  next
    case False
    then show ?thesis
      using r(1,2) by (simp add: Struct_used_space_def)
  qed
  show "Struct_capacity (snd (Copy m this src)) this =
           (if OffsetPtr_bool m (src + 4) then Struct_capacity m this
            else Struct_used_space m src)"
  proof (cases "OffsetPtr_bool m (src + 4)")
    case True
    have "Struct_capacity (snd (Copy m this src)) this
        = unat (of_nat (Struct_capacity m this) :: 32 word)"
      using r True by (simp add: Struct_capacity_def del: unat_Struct_capacity)
    then show ?thesis
      using True unat_of_nat32 [OF Struct_capacity_less, of m this] by simp
  next
    case False
    then show ?thesis
      using r(1,2) by (simp add: Struct_capacity_def Struct_used_space_def)
  qed
qed

lemma Copy_bytes:
  assumes ok: "\<not> (src = 0 \<or> Struct_capacity m this < Struct_used_space m src)"
    and wf: "wf_block m src"
  shows "x < this \<or> this + int (Struct_used_space m src) \<le> x \<Longrightarrow>
           snd (Copy m this src) x = m x"
    and "this \<le> x \<Longrightarrow> x < this + int (Struct_used_space m src) \<Longrightarrow>
         \<not> (OffsetPtr_bool m (src + 4) \<and> this + int (unat (load32 m src)) \<le> x \<and>
              x < this + int (unat (load32 m src)) + 4) \<Longrightarrow>
           snd (Copy m this src) x = m (src + (x - this))"
proof -
  note c = Copy_wf [OF ok wf]
  show "snd (Copy m this src) x = m x"
    if "x < this \<or> this + int (Struct_used_space m src) \<le> x"
  proof (cases "OffsetPtr_bool m (src + 4)")
    case True
    have "x < this + int (unat (load32 m src)) \<or> this + int (unat (load32 m src)) + 4 \<le> x"
      using that c(3) [OF True] by linarith
    then show ?thesis
      unfolding c(1) using True that by (simp add: store32_frame memcpy_outside)
  next
    case False
    then show ?thesis
      unfolding c(1) using that by (simp add: memcpy_outside)
  qed
  show "snd (Copy m this src) x = m (src + (x - this))"
    if "this \<le> x" "x < this + int (Struct_used_space m src)"
      "\<not> (OffsetPtr_bool m (src + 4) \<and> this + int (unat (load32 m src)) \<le> x \<and>
              x < this + int (unat (load32 m src)) + 4)"
  proof (cases "OffsetPtr_bool m (src + 4)")
    case True
    have "x < this + int (unat (load32 m src)) \<or> this + int (unat (load32 m src)) + 4 \<le> x"
      using that(3) True by linarith
    then show ?thesis
      unfolding c(1) using True that(1,2) by (simp add: store32_frame memcpy_inside)
  next
    case False
    then show ?thesis
      unfolding c(1) using that(1,2) by (simp add: memcpy_inside)
  qed
qed

lemma Struct_ctor_frame: "x < b + 4 \<or> b + 8 \<le> x \<Longrightarrow> Struct_ctor m b x = m x"
  by (auto simp: Struct_ctor_def store32_frame)

lemma Init_frame:
  assumes "0 \<le> b" "8 \<le> szS" "szS < 2 ^ 31"
    and "x < b \<or> (b + 8 \<le> x \<and> (fs = 0 \<or> x < b + int szS \<or> b + int szS + 8 \<le> x))"
  shows "Init szS m b fs x = m x"
proof (cases "fs = 0")
  case True
  then show ?thesis
    using assms(4) by (auto simp: Init_no_free store32_frame)
next
  case False
  show ?thesis
    unfolding Init_free [OF False assms(1-3)]
    using assms(4) False by (auto simp: store32_frame)
qed

lemma InplaceNew_frame:
  assumes "0 \<le> b" "8 \<le> szS" "szS < 2 ^ 31" "N < 2 ^ 64"
    and "x < b \<or> (b + int szS \<le> x \<and> (N = szS \<or> b + int szS + 8 \<le> x))"
    and "\<And>y. y < b \<or> b + int szS \<le> y \<Longrightarrow> ctor m b y = m y"
  shows "snd (InplaceNew ctor szS m b N) x = m x"
proof -
  have "szS < 2 ^ 64"
    using assms(3) by simp
  then have fs: "(N + 2 ^ 64 - szS) mod 2 ^ 64 = 0 \<longleftrightarrow> N = szS"
    using assms(4) by (rule InplaceNew_no_free)
  have "x < b \<or> (b + 8 \<le> x \<and> (N = szS \<or> x < b + int szS \<or> b + int szS + 8 \<le> x))"
    using assms(2,5) by linarith
  then have "Init szS (ctor m b) b ((N + 2 ^ 64 - szS) mod 2 ^ 64) x = ctor m b x"
    by (intro Init_frame [OF assms(1-3)]) (simp only: fs)
  moreover have "ctor m b x = m x"
    using assms(5) by (intro assms(6)) auto
  ultimately show ?thesis
    by (simp add: InplaceNew_def)
qed

lemma second_block_frame:
  "x < 2000 \<Longrightarrow> two_blocks x = blk128 x" "x < 2000 \<Longrightarrow> bare_block x = blk128 x"
  unfolding two_blocks_def bare_block_def
  by (rule InplaceNew_frame; auto simp: Struct_ctor_frame)+

lemma first_block_fields:
  "load32 two_blocks 1000 = 8" "load32 two_blocks 1004 = load32 blk128 1004"
  "load32 two_blocks 1008 = 120" "load32 two_blocks 1012 = 8"
  "load32 bare_block 1000 = 8" "load32 bare_block 1004 = load32 blk128 1004"
  "load32 bare_block 1008 = 120" "load32 bare_block 1012 = 8"
proof -
  have a: "load32 two_blocks a = load32 blk128 a" "load32 bare_block a = load32 blk128 a"
    if "a + 4 \<le> 2000" for a
    by (rule load32_eq_on, rule second_block_frame, use that in simp)+
  show "load32 two_blocks 1000 = 8" "load32 two_blocks 1004 = load32 blk128 1004"
  "load32 two_blocks 1008 = 120" "load32 two_blocks 1012 = 8"
  "load32 bare_block 1000 = 8" "load32 bare_block 1004 = load32 blk128 1004"
  "load32 bare_block 1008 = 120" "load32 bare_block 1012 = 8"
    using blk128_fields
    by (simp_all add: a Allocator_capacity_def Allocator_used_space_def)
qed

lemma first_block:
  "Struct_capacity two_blocks 1000 = 128" "Struct_used_space two_blocks 1000 = 16"
  "Struct_capacity bare_block 1000 = 128" "Struct_used_space bare_block 1000 = 16"
  "wf_block two_blocks 1000" "wf_block bare_block 1000"
proof -
  have g: "OffsetPtr_bool two_blocks 1004" "OffsetPtr_get two_blocks 1004 = 1008"
    "OffsetPtr_bool bare_block 1004" "OffsetPtr_get bare_block 1004 = 1008"
    using get_shift [OF first_block_fields(2)] get_shift [OF first_block_fields(6)]
      blk128_fields(2,3)
    by simp_all
  show "Struct_capacity two_blocks 1000 = 128" "Struct_used_space two_blocks 1000 = 16"
  "Struct_capacity bare_block 1000 = 128" "Struct_used_space bare_block 1000 = 16"
  "wf_block two_blocks 1000" "wf_block bare_block 1000"
    by (simp_all add: Struct_capacity_def Struct_used_space_def wf_block_def g
        first_block_fields Allocator_capacity_def Allocator_used_space_def sizeof_Allocator_def)
qed

lemma second_block:
  "Struct_capacity two_blocks 2000 = 24" "Struct_used_space two_blocks 2000 = 16"
  "wf_block two_blocks 2000" "OffsetPtr_bool two_blocks 2004"
  "Struct_capacity bare_block 2000 = 8" "Struct_used_space bare_block 2000 = 8"
  "wf_block bare_block 2000" "\<not> OffsetPtr_bool bare_block 2004"
  "load32 two_blocks 2000 = 8" "load32 bare_block 2000 = 8"
  unfolding two_blocks_def bare_block_def
  using Init_fields(1,2) [where b = 2000 and szS = 8 and m = "Struct_ctor blk128 2000"]
  by (simp_all add: InplaceNew_capacity InplaceNew_used_space InplaceNew_wf sizeof_Allocator_def)
     (simp_all add: InplaceNew_def)

text \<open>
  C8 (as amended).  \<^verbatim>\<open>Copy(src)\<close> returns false if and only if \<open>src\<close> is null or the
  destination's \<open>capacity()\<close> is less than \<open>src->used_space()\<close>, and then no byte of
  memory is modified.  When it returns true, for a well-formed source that does not
  overlap the destination: no byte outside the first \<open>src->used_space()\<close> bytes of the
  destination is modified; these bytes are the source's bytes, but for the four bytes
  of the allocator's \<open>capacity\<close> member, which are set afterwards;
  \<open>used_space()\<close> of the destination is that of the source; and \<open>capacity()\<close> of the
  destination is its \<open>capacity()\<close> before the call when the source has an allocator.
  When the source has no allocator the destination's \<open>capacity()\<close> afterwards is
  \<open>src->used_space()\<close>.
\<close>

theorem Copy_spec:
  "(fst (Copy m this src) \<longleftrightarrow>
      \<not> (src = 0 \<or> Struct_capacity m this < Struct_used_space m src)) \<and>
   (\<not> fst (Copy m this src) \<longrightarrow> snd (Copy m this src) = m) \<and>
   (fst (Copy m this src) \<and> wf_block m src \<and>
    (this + int (Struct_used_space m src) \<le> src \<or>
     src + int (Struct_used_space m src) \<le> this) \<longrightarrow>
      (\<forall>x. x < this \<or> this + int (Struct_used_space m src) \<le> x \<longrightarrow>
           snd (Copy m this src) x = m x) \<and>
      (\<forall>x. this \<le> x \<and> x < this + int (Struct_used_space m src) \<and>
           \<not> (OffsetPtr_bool m (src + 4) \<and> this + int (unat (load32 m src)) \<le> x \<and>
              x < this + int (unat (load32 m src)) + 4) \<longrightarrow>
           snd (Copy m this src) x = m (src + (x - this))) \<and>
      Struct_used_space (snd (Copy m this src)) this = Struct_used_space m src \<and>
      (OffsetPtr_bool m (src + 4) \<longrightarrow>
         Struct_capacity (snd (Copy m this src)) this = Struct_capacity m this) \<and>
      (\<not> OffsetPtr_bool m (src + 4) \<longrightarrow>
         Struct_capacity (snd (Copy m this src)) this = Struct_used_space m src))"
proof (cases "src = 0 \<or> Struct_capacity m this < Struct_used_space m src")
  case True
  then show ?thesis
    by (simp add: Copy_fails)
next
  case False
  have t: "fst (Copy m this src)"
    by (simp add: Copy_succeeds [OF False])
  show ?thesis
  proof (cases "wf_block m src")
    case True
    show ?thesis
      using t False Copy_sizes [OF False True] Copy_bytes [OF False True]
      by auto
  next
    case f: False
    then show ?thesis
      using t False by simp
  qed
qed

theorem Copy_spec_witness:
  "fst (Copy two_blocks 1000 2000) \<and>
   snd (Copy two_blocks 1000 2000) 999 = two_blocks 999 \<and>
   snd (Copy two_blocks 1000 2000) 1012 = two_blocks 2012 \<and>
   Struct_used_space (snd (Copy two_blocks 1000 2000)) 1000 = 16 \<and>
   Struct_capacity (snd (Copy two_blocks 1000 2000)) 1000 = 128 \<and>
   \<not> fst (Copy bare_block 2000 1000) \<and>
   snd (Copy bare_block 2000 1000) = bare_block"
  using Copy_spec [of two_blocks 1000 2000] Copy_spec [of bare_block 2000 1000]
  by (simp add: first_block second_block first_block_fields)

text \<open>
  C8 as stated fails when the source has no allocator: the destination of 128 bytes
  takes a copy of the bare record of 8 bytes, \<^verbatim>\<open>Copy\<close> returns true, and the
  destination's \<open>capacity()\<close> is 8 afterwards.
\<close>

theorem Copy_capacity_counterexample:
  "wf_block bare_block 1000 \<and> wf_block bare_block 2000 \<and>
   Struct_capacity bare_block 1000 = 128 \<and>
   Struct_used_space bare_block 2000 = 8 \<and>
   fst (Copy bare_block 1000 2000) \<and>
   Struct_capacity (snd (Copy bare_block 1000 2000)) 1000 = 8 \<and>
   Struct_capacity (snd (Copy bare_block 1000 2000)) 1000 \<noteq> Struct_capacity bare_block 1000"
proof -
  have ok: "\<not> (2000 = (0 :: int) \<or> Struct_capacity bare_block 1000 < Struct_used_space bare_block 2000)"
    by (simp add: first_block second_block)
  show ?thesis
    using Copy_sizes(2) [OF ok second_block(7)]
    by (simp add: first_block second_block Copy_succeeds [OF ok])
qed

section \<open>NewCopy\<close>

lemma block_reloc:
  assumes c: "byte_copy m b m' b' (Struct_used_space m b)" and wf: "wf_block m b"
  shows "load32 m' b' = load32 m b"
    and "OffsetPtr_bool m' (b' + 4) = OffsetPtr_bool m (b + 4)"
    and "OffsetPtr_bool m (b + 4) \<Longrightarrow>
           OffsetPtr_get m' (b' + 4) = b' + int (unat (load32 m b))"
    and "OffsetPtr_bool m (b + 4) \<Longrightarrow>
           Allocator_capacity m' (b' + int (unat (load32 m b)))
             = Allocator_capacity m (b + int (unat (load32 m b)))"
    and "OffsetPtr_bool m (b + 4) \<Longrightarrow>
           Allocator_used_space m' (b' + int (unat (load32 m b)))
             = Allocator_used_space m (b + int (unat (load32 m b)))"
proof -
  define n where "n = Struct_used_space m b"
  define ss where "ss = unat (load32 m b)"
  have ss8: "8 \<le> int ss"
    unfolding ss_def using wf_block_size [OF wf] by linarith
  have n: "n = ss + (if OffsetPtr_bool m (b + 4)
            then unat (Allocator_used_space m (b + int ss)) else 0)"
    using wf_block_sums(2) [OF wf] by (simp add: n_def ss_def)
  have n8: "int ss \<le> int n"
    using n by simp
  note l = load32_byte_copy [OF c [folded n_def]]
  show h0: "load32 m' b' = load32 m b"
    using l [of b] ss8 n8 by simp
  have h4: "load32 m' (b' + 4) = load32 m (b + 4)"
    using l [of "b + 4"] ss8 n8 by (simp add: algebra_simps)
  note g = get_shift [OF h4]
  show "OffsetPtr_bool m' (b' + 4) = OffsetPtr_bool m (b + 4)"
    by (rule g(1))
  show "OffsetPtr_get m' (b' + 4) = b' + int (unat (load32 m b))" if "OffsetPtr_bool m (b + 4)"
    using g(2) that wf_blockD(1) [OF wf that] by simp
  have "ss + 8 \<le> n" if "OffsetPtr_bool m (b + 4)"
    using n that wf_blockD(2) [OF wf that]
    by (simp add: ss_def [symmetric] sizeof_Allocator_def)
  then have big: "int ss + 8 \<le> int n" if "OffsetPtr_bool m (b + 4)"
    using that by fastforce
  show "Allocator_capacity m' (b' + int (unat (load32 m b)))
             = Allocator_capacity m (b + int (unat (load32 m b)))" if "OffsetPtr_bool m (b + 4)"
    using l [of "b + int ss"] big [OF that]
    by (simp add: Allocator_capacity_def ss_def [symmetric] algebra_simps)
  show "Allocator_used_space m' (b' + int (unat (load32 m b)))
             = Allocator_used_space m (b + int (unat (load32 m b)))" if "OffsetPtr_bool m (b + 4)"
    using l [of "b + int ss + 4"] big [OF that]
    by (simp add: Allocator_used_space_def ss_def [symmetric] algebra_simps)
qed

lemma block_reloc_sizes:
  assumes c: "byte_copy m b m' b' (Struct_used_space m b)" and wf: "wf_block m b"
  shows "Struct_capacity m' b' = Struct_capacity m b"
    and "Struct_used_space m' b' = Struct_used_space m b"
    and "wf_block m' b'"
proof -
  note r = block_reloc [OF c wf]
  show "Struct_capacity m' b' = Struct_capacity m b"
    using r wf_blockD(1) [OF wf]
    by (cases "OffsetPtr_bool m (b + 4)") (simp_all add: Struct_capacity_def)
  show "Struct_used_space m' b' = Struct_used_space m b"
    using r wf_blockD(1) [OF wf]
    by (cases "OffsetPtr_bool m (b + 4)") (simp_all add: Struct_used_space_def)
  show "wf_block m' b'"
  proof (cases "OffsetPtr_bool m (b + 4)")
    case True
    then show ?thesis
      using r wf_blockD [OF wf True] wf_block_size [OF wf]
      by (simp add: wf_block_def)
  next
    case False
    then show ?thesis
      using r(1,2) wf_block_size [OF wf] by (simp add: wf_block_def)
  qed
qed

lemma of_nat_Struct_used_space: "(of_nat (Struct_used_space m b) :: 32 word) =
    load32 m b + (if OffsetPtr_bool m (b + 4)
        then Allocator_used_space m (OffsetPtr_get m (b + 4)) else 0)"
  by (simp add: Struct_used_space_def)

lemma Struct_used_space_less: "Struct_used_space m b < 2 ^ 32"
  unfolding Struct_used_space_def by (rule unat32_less)

lemma Struct_Allocate_full:
  assumes "OffsetPtr_bool m (b + 4) \<longrightarrow>
      Allocator_capacity m (OffsetPtr_get m (b + 4)) =
      Allocator_used_space m (OffsetPtr_get m (b + 4))"
    and "count = 0 \<or> (szT * count) mod 2 ^ 64 \<noteq> 0"
  shows "Struct_Allocate m b szT count = (0, m)"
  using assms by (auto simp: Struct_Allocate_def intro!: Allocate_fails)

lemma NewCopy_block:
  assumes src: "src \<noteq> 0" and buf: "0 < buffer"
    and wf: "wf_block m src"
    and S: "load32 m src = of_nat szS" "8 \<le> szS" "szS < 2 ^ 31"
    and disj: "buffer + int (Struct_used_space m src) \<le> src \<or>
               src + int (Struct_used_space m src) \<le> buffer"
    and ctor: "\<And>y. y < buffer \<or> buffer + int szS \<le> y \<Longrightarrow> ctor m buffer y = m y"
  shows "fst (NewCopy ctor szS m buffer src) = buffer"
    and "Struct_used_space (snd (NewCopy ctor szS m buffer src)) buffer = Struct_used_space m src"
    and "Struct_capacity (snd (NewCopy ctor szS m buffer src)) buffer = Struct_used_space m src"
    and "OffsetPtr_bool (snd (NewCopy ctor szS m buffer src)) (buffer + 4) \<longrightarrow>
      Allocator_capacity (snd (NewCopy ctor szS m buffer src))
        (OffsetPtr_get (snd (NewCopy ctor szS m buffer src)) (buffer + 4)) =
      Allocator_used_space (snd (NewCopy ctor szS m buffer src))
        (OffsetPtr_get (snd (NewCopy ctor szS m buffer src)) (buffer + 4))"
    and "OffsetPtr_bool (snd (NewCopy ctor szS m buffer src)) (buffer + 4) =
           OffsetPtr_bool m (src + 4)"
    and "OffsetPtr_bool m (src + 4) \<Longrightarrow>
           OffsetPtr_get (snd (NewCopy ctor szS m buffer src)) (buffer + 4) = buffer + int szS"
    and "OffsetPtr_bool m (src + 4) \<Longrightarrow>
           Allocator_used_space (snd (NewCopy ctor szS m buffer src)) (buffer + int szS) =
           Allocator_used_space m (src + int szS)"
proof -
  define n where "n = Struct_used_space m src"
  define m1 where "m1 = snd (InplaceNew ctor szS m buffer n)"
  define m' where "m' = snd (Copy m1 buffer src)"
  have b0: "0 \<le> buffer"
    using buf by simp
  have nlt: "n < 2 ^ 32"
    unfolding n_def by (rule Struct_used_space_less)
  then have nlt64: "n < 2 ^ 64"
    by simp
  have ss: "unat (load32 m src) = szS"
    using S(1,3) unat_of_nat32 [of szS] by simp
  have nc: "NewCopy ctor szS m buffer src = (buffer, m')"
    using src buf
    by (simp add: NewCopy_def New_def m'_def m1_def n_def [symmetric])
       (simp add: InplaceNew_def)
  have cap1: "Struct_capacity m1 buffer = n"
    unfolding m1_def by (rule InplaceNew_capacity [OF b0 S(2,3) nlt])
  have n_sum: "n = szS + (if OffsetPtr_bool m (src + 4)
            then unat (Allocator_used_space m (src + int szS)) else 0)"
    using wf_block_sums(2) [OF wf] by (simp add: n_def ss)
  have n_big: "OffsetPtr_bool m (src + 4) \<Longrightarrow> szS + 8 \<le> n"
    using n_sum wf_blockD(2) [OF wf] by (simp add: ss sizeof_Allocator_def)
  have n_eq: "\<not> OffsetPtr_bool m (src + 4) \<Longrightarrow> n = szS"
    using n_sum by simp
  have same: "m1 x = m x" if "src \<le> x" "x < src + int n" for x
  proof -
    have "x < buffer \<or> (buffer + int szS \<le> x \<and> (n = szS \<or> buffer + int szS + 8 \<le> x))"
    proof (cases "OffsetPtr_bool m (src + 4)")
      case True
      from n_big [OF True] have "int szS + 8 \<le> int n"
        by simp
      then show ?thesis
        using disj that unfolding n_def [symmetric] by linarith
    next
      case False
      from n_eq [OF False] have "int n = int szS" "n = szS"
        by simp_all
      then show ?thesis
        using disj that unfolding n_def [symmetric] by linarith
    qed
    then show ?thesis
      unfolding m1_def by (intro InplaceNew_frame [OF b0 S(2,3) nlt64] ctor) auto
  qed
  have bc: "byte_copy m src m1 src (Struct_used_space m src)"
    unfolding byte_copy_def n_def [symmetric] using same by simp
  note r1 = block_reloc [OF bc wf] and s1 = block_reloc_sizes [OF bc wf]
  have used1: "Struct_used_space m1 src = n"
    using s1(2) by (simp add: n_def)
  have ok: "\<not> (src = 0 \<or> Struct_capacity m1 buffer < Struct_used_space m1 src)"
    using src cap1 used1 by simp
  note cs = Copy_sizes [OF ok s1(3), folded m'_def] and cr = Copy_result [OF ok s1(3), folded m'_def]
  have al1: "OffsetPtr_bool m1 (src + 4) = OffsetPtr_bool m (src + 4)"
    using r1(2) by simp
  show "fst (NewCopy ctor szS m buffer src) = buffer"
    by (simp add: nc)
  show "Struct_used_space (snd (NewCopy ctor szS m buffer src)) buffer = Struct_used_space m src"
    using cs(1) used1 by (simp add: nc n_def)
  show "Struct_capacity (snd (NewCopy ctor szS m buffer src)) buffer = Struct_used_space m src"
    using cs(2) used1 cap1 by (simp add: nc n_def)
  show "OffsetPtr_bool (snd (NewCopy ctor szS m buffer src)) (buffer + 4) \<longrightarrow>
      Allocator_capacity (snd (NewCopy ctor szS m buffer src))
        (OffsetPtr_get (snd (NewCopy ctor szS m buffer src)) (buffer + 4)) =
      Allocator_used_space (snd (NewCopy ctor szS m buffer src))
        (OffsetPtr_get (snd (NewCopy ctor szS m buffer src)) (buffer + 4))"
  proof
    assume "OffsetPtr_bool (snd (NewCopy ctor szS m buffer src)) (buffer + 4)"
    then have al: "OffsetPtr_bool m1 (src + 4)"
      using cr(2) by (simp add: nc)
    then have alm: "OffsetPtr_bool m (src + 4)"
      using al1 by simp
    have ss1: "load32 m1 src = load32 m src"
      using r1(1) .
    have "(of_nat n :: 32 word) = load32 m src + Allocator_used_space m (src + int szS)"
      using of_nat_Struct_used_space [of m src] alm wf_blockD(1) [OF wf alm]
      by (simp add: n_def ss)
    moreover have "Allocator_used_space m1 (src + int szS) = Allocator_used_space m (src + int szS)"
      using r1(5) [OF alm] by (simp add: ss)
    ultimately show "Allocator_capacity (snd (NewCopy ctor szS m buffer src))
        (OffsetPtr_get (snd (NewCopy ctor szS m buffer src)) (buffer + 4)) =
      Allocator_used_space (snd (NewCopy ctor szS m buffer src))
        (OffsetPtr_get (snd (NewCopy ctor szS m buffer src)) (buffer + 4))"
      using cr(3,4,5) [OF al] cap1 ss1 by (simp add: nc ss)
  qed
  show "OffsetPtr_bool (snd (NewCopy ctor szS m buffer src)) (buffer + 4) =
           OffsetPtr_bool m (src + 4)"
    using cr(2) al1 by (simp add: nc)
  show "OffsetPtr_get (snd (NewCopy ctor szS m buffer src)) (buffer + 4) = buffer + int szS"
    if alm: "OffsetPtr_bool m (src + 4)"
  proof -
    have al: "OffsetPtr_bool m1 (src + 4)"
      using alm al1 by simp
    show ?thesis
      using cr(3) [OF al] r1(1) by (simp add: nc ss)
  qed
  show "Allocator_used_space (snd (NewCopy ctor szS m buffer src)) (buffer + int szS) =
           Allocator_used_space m (src + int szS)"
    if alm: "OffsetPtr_bool m (src + 4)"
  proof -
    have al: "OffsetPtr_bool m1 (src + 4)"
      using alm al1 by simp
    show ?thesis
      using cr(5) [OF al] r1(1) r1(5) [OF alm] by (simp add: nc ss)
  qed
qed


text \<open>
  C9 (as amended).  Let \<open>B\<close> be a well-formed block whose record type is \<^verbatim>\<open>S\<close>
  (\<open>struct_size = sizeof(S)\<close>), and let the buffer that \<^verbatim>\<open>new char[]\<close> hands out not
  overlap \<open>B\<close>.  Then \<^verbatim>\<open>NewCopy(B)\<close> returns a block \<open>B'\<close> at the buffer with
  \<open>B'.used_space() = B.used_space()\<close> and \<open>B'.capacity() = B'.used_space()\<close>: the new
  block is exactly full, and every allocation in it of no element, or of a number of
  bytes \<open>sizeof(T) * count\<close> that is not zero as a \<^verbatim>\<open>size_t\<close>, returns null and changes
  nothing.
\<close>

theorem NewCopy_round_trip:
  assumes "src \<noteq> 0" and "0 < buffer"
    and "wf_block m src"
    and "load32 m src = of_nat szS" and "8 \<le> szS" and "szS < 2 ^ 31"
    and "buffer + int (Struct_used_space m src) \<le> src \<or>
         src + int (Struct_used_space m src) \<le> buffer"
    and "\<forall>y. y < buffer \<or> buffer + int szS \<le> y \<longrightarrow> ctor m buffer y = m y"
  shows "fst (NewCopy ctor szS m buffer src) = buffer \<and>
    Struct_used_space (snd (NewCopy ctor szS m buffer src)) buffer = Struct_used_space m src \<and>
    Struct_capacity (snd (NewCopy ctor szS m buffer src)) buffer =
      Struct_used_space (snd (NewCopy ctor szS m buffer src)) buffer \<and>
    (\<forall>szT count. count = 0 \<or> (szT * count) mod 2 ^ 64 \<noteq> 0 \<longrightarrow>
       Struct_Allocate (snd (NewCopy ctor szS m buffer src)) buffer szT count =
         (0, snd (NewCopy ctor szS m buffer src)))"
proof -
  have c: "\<And>y. y < buffer \<or> buffer + int szS \<le> y \<Longrightarrow> ctor m buffer y = m y"
    using assms(8) by blast
  note n = NewCopy_block [where ctor = ctor, OF assms(1-7) c]
  show ?thesis
    using n(1,2,3) Struct_Allocate_full [OF n(4)] by simp
qed

theorem NewCopy_round_trip_witness:
  "fst (NewCopy Struct_ctor 8 blk128 2000 1000) = 2000 \<and>
   Struct_used_space blk128 1000 = 16 \<and>
   Struct_used_space (snd (NewCopy Struct_ctor 8 blk128 2000 1000)) 2000 = 16 \<and>
   Struct_capacity (snd (NewCopy Struct_ctor 8 blk128 2000 1000)) 2000 = 16 \<and>
   Struct_Allocate (snd (NewCopy Struct_ctor 8 blk128 2000 1000)) 2000 4 1 =
     (0, snd (NewCopy Struct_ctor 8 blk128 2000 1000))"
proof -
  have u: "Struct_used_space blk128 1000 = 16"
    by (simp add: Struct_used_space_def blk128_fields)
  have f: "\<forall>y. y < 2000 \<or> 2000 + int 8 \<le> y \<longrightarrow> Struct_ctor blk128 2000 y = blk128 y"
    by (auto simp: Struct_ctor_frame)
  have "(4 * 1 :: nat) mod 2 ^ 64 \<noteq> 0"
    by simp
  then show ?thesis
    using NewCopy_round_trip [where ctor = Struct_ctor and src = 1000 and buffer = 2000
        and m = blk128 and szS = 8, OF _ _ blk128_wf _ _ _ _ f] u
    by (simp add: blk128_fields)
qed

text \<open>
  C9 as stated fails: in the full copy of the block of 16 used bytes, a request of
  \<open>2 ^ 62\<close> elements of 4 bytes succeeds.  The product \<open>sizeof(T) * count\<close> is \<open>2 ^ 64\<close>,
  which is 0 as a \<^verbatim>\<open>size_t\<close>, so \<open>required_space\<close> does not exceed the 0 bytes
  available and \<^verbatim>\<open>Allocate\<close> returns the address after the used bytes.
\<close>

theorem NewCopy_full_counterexample:
  "Struct_used_space full_copy 2000 = 16 \<and>
   Struct_capacity full_copy 2000 = 16 \<and>
   (4 * 2 ^ 62 :: nat) mod 2 ^ 64 = 0 \<and>
   fst (Struct_Allocate full_copy 2000 4 (2 ^ 62)) = 2016 \<and>
   fst (Struct_Allocate full_copy 2000 4 (2 ^ 62)) \<noteq> 0"
proof -
  have u: "Struct_used_space blk128 1000 = 16"
    by (simp add: Struct_used_space_def blk128_fields)
  have f: "\<And>y. y < 2000 \<or> 2000 + int 8 \<le> y \<Longrightarrow> Struct_ctor blk128 2000 y = blk128 y"
    by (auto simp: Struct_ctor_frame)
  have d: "2000 + int (Struct_used_space blk128 1000) \<le> 1000 \<or>
      1000 + int (Struct_used_space blk128 1000) \<le> 2000"
    by (simp add: u)
  have s: "load32 blk128 1000 = of_nat 8"
    by (simp add: blk128_fields)
  note n = NewCopy_block [where ctor = Struct_ctor and src = 1000 and buffer = 2000
      and m = blk128 and szS = 8, OF _ _ blk128_wf s _ _ d f, folded full_copy_def, simplified]
  have al: "OffsetPtr_bool full_copy 2004" "OffsetPtr_get full_copy 2004 = 2008"
    "Allocator_used_space full_copy 2008 = 8" "Allocator_capacity full_copy 2008 = 8"
    using n blk128_fields by simp_all
  have z: "(4 * 2 ^ 62 :: nat) mod 2 ^ 64 = 0"
    by simp
  have "Allocate full_copy 2008 4 (2 ^ 62) =
      (2008 + uint (Allocator_used_space full_copy 2008),
       store32 (memset0 full_copy (2008 + uint (Allocator_used_space full_copy 2008))
           ((4 * 2 ^ 62) mod 2 ^ 64)) (2008 + 4)
         (Allocator_used_space
            (memset0 full_copy (2008 + uint (Allocator_used_space full_copy 2008))
               ((4 * 2 ^ 62) mod 2 ^ 64)) 2008
          + of_nat ((4 * 2 ^ 62) mod 2 ^ 64)))"
    by (rule Allocate_succeeds) (simp_all add: al)
  then have a: "fst (Allocate full_copy 2008 4 (2 ^ 62)) = 2016"
    by (simp add: al)
  show ?thesis
    using n(2,3) u a z by (simp add: Struct_Allocate_def al)
qed

section \<open>String\<close>

lemma null_get: "\<not> OffsetPtr_bool m a \<Longrightarrow> OffsetPtr_get m a = 0"
  by (simp add: OffsetPtr_bool_def OffsetPtr_get_def)

lemma str_mem_fields:
  "load32 str_mem 100 = 0" "load32 str_mem 200 = 100" "str_mem 50 = 0" "str_mem 300 = 0"
  by (simp_all add: str_mem_def String_assign_def OffsetPtr_assign_def to_offset_def
      load32_store32_other store32_frame)
     (simp_all add: mem0_def load32_def)

lemma str_mem_ptrs:
  "\<not> OffsetPtr_bool str_mem 100" "OffsetPtr_get str_mem 100 = 0"
  "OffsetPtr_bool str_mem 200" "OffsetPtr_get str_mem 200 = 300"
  by (simp_all add: OffsetPtr_bool_def OffsetPtr_get_def str_mem_fields)

text \<open>
  C6 (as amended).  For every \<^verbatim>\<open>String\<close> whose \<open>data\<close> is null: \<^verbatim>\<open>operator==\<close> with a
  C string pointer \<open>s\<close> returns true exactly when \<open>s\<close> is the null pointer;
  \<^verbatim>\<open>operator==\<close> with another \<^verbatim>\<open>String\<close> returns true exactly when the target of that
  string's \<open>data\<close> is null; \<^verbatim>\<open>length()\<close> returns 0, \<^verbatim>\<open>empty()\<close> returns true and
  \<^verbatim>\<open>c_str()\<close> returns the empty literal, so the string converts to the characters of
  that literal.
\<close>

theorem String_null_state:
  assumes "\<not> OffsetPtr_bool m this"
  shows "String_eq_cstr m this s = Some (s = 0) \<and>
         String_eq m this other = Some (OffsetPtr_get m other = 0) \<and>
         String_length lit m this = Some 0 \<and>
         String_empty m this \<and>
         c_str lit m this = lit \<and>
         String_to_string lit m this = cstring m lit"
  using assms null_get [OF assms]
  by (auto simp: String_eq_cstr_def String_eq_def String_length_def String_empty_def c_str_def
      String_to_string_def)

theorem String_null_state_witness:
  "String_eq_cstr str_mem 100 0 = Some True \<and>
   String_eq str_mem 100 100 = Some True \<and>
   String_length 50 str_mem 100 = Some 0 \<and>
   String_empty str_mem 100 \<and>
   c_str 50 str_mem 100 = 50 \<and>
   String_to_string 50 str_mem 100 = Some []"
  using String_null_state [of str_mem 100 0 100 50] str_mem_ptrs str_mem_fields
  by (simp add: cstring.simps)

text \<open>
  C6 as stated fails: the null \<^verbatim>\<open>String\<close> at 100 compared with the empty C string at
  address 50 gives false, and so does the comparison with the \<^verbatim>\<open>String\<close> at 200, whose
  stored characters are the empty string.
\<close>

theorem String_null_eq_counterexample:
  "\<not> OffsetPtr_bool str_mem 100 \<and>
   cstring str_mem 50 = Some [] \<and>
   String_eq_cstr str_mem 100 50 = Some False \<and>
   cstring str_mem (OffsetPtr_get str_mem 200) = Some [] \<and>
   String_eq str_mem 100 200 = Some False"
  by (simp add: str_mem_ptrs str_mem_fields cstring.simps String_eq_cstr_def String_eq_def)

section \<open>Map\<close>

text \<open>
  \<^verbatim>\<open>find\<close> returns: with \<open>k\<close> pairs between \<open>it\<close> and \<open>end()\<close> the loop stops at the first
  pair whose key matches, or at \<open>end()\<close>.
\<close>

lemma find_loop_scan:
  assumes "0 < szP"
  shows "\<exists>j \<le> k. find_loop keq szP m (it + int (k * szP)) it = Some (it + int (j * szP)) \<and>
           (\<forall>i < j. \<not> keq m (it + int (i * szP))) \<and>
           (j < k \<longrightarrow> keq m (it + int (j * szP)))"
proof (induction k arbitrary: it)
  case 0
  show ?case
    by (subst find_loop.simps) simp
next
  case (Suc k)
  show ?case
  proof (cases "keq m it")
    case True
    have "find_loop keq szP m (it + int (Suc k * szP)) it = Some it"
      using True by (subst find_loop.simps) simp
    then show ?thesis
      using True by (intro exI [of _ 0]) simp
  next
    case False
    obtain j where j: "j \<le> k"
      "find_loop keq szP m (it + int szP + int (k * szP)) (it + int szP)
         = Some (it + int szP + int (j * szP))"
      "\<forall>i < j. \<not> keq m (it + int szP + int (i * szP))"
      "j < k \<longrightarrow> keq m (it + int szP + int (j * szP))"
      using Suc.IH [of "it + int szP"] by blast
    have "0 < Suc k * szP"
      using assms by simp
    then have "0 < int (Suc k * szP)"
      by (simp only: of_nat_0_less_iff)
    then have ne: "it \<noteq> it + int (Suc k * szP)"
      by linarith
    have e: "it + int (Suc k * szP) = it + int szP + int (k * szP)"
      by (simp add: algebra_simps)
    have "find_loop keq szP m (it + int (Suc k * szP)) it
        = find_loop keq szP m (it + int (Suc k * szP)) (it + int szP)"
      using False ne by (subst find_loop.simps) simp
    then have r: "find_loop keq szP m (it + int (Suc k * szP)) it
        = Some (it + int (Suc j * szP))"
      using j(2) by (simp add: e algebra_simps)
    have "\<not> keq m (it + int (i * szP))" if "i < Suc j" for i
    proof (cases i)
      case 0
      then show ?thesis using False by simp
    next
      case (Suc i')
      then have "i' < j" using that by simp
      with j(3) have "\<not> keq m (it + int szP + int (i' * szP))" by blast
      then show ?thesis
        using Suc by (simp add: algebra_simps)
    qed
    moreover have "Suc j < Suc k \<longrightarrow> keq m (it + int (Suc j * szP))"
      using j(4) by (simp add: algebra_simps)
    ultimately show ?thesis
      using r j(1) by (intro exI [of _ "Suc j"]) simp
  qed
qed

lemma Map_find_scan:
  assumes "0 < szP"
  shows "\<exists>j \<le> Vector_size m this.
           Map_find keq szP m this = Some (Vector_begin m this + int (j * szP)) \<and>
           (\<forall>i < j. \<not> keq m (Vector_begin m this + int (i * szP))) \<and>
           (j < Vector_size m this \<longrightarrow> keq m (Vector_begin m this + int (j * szP)))"
  unfolding Map_find_def Vector_end_def Vector_begin_def [symmetric]
  by (rule find_loop_scan [OF assms])

lemma map_mem_fields:
  "load32 map_mem 100 = 2" "OffsetPtr_get map_mem 104 = 200"
  "load32 map_mem 200 = 1" "load32 map_mem 204 = 10"
  "load32 map_mem 208 = 2" "load32 map_mem 212 = 20"
  by (simp_all add: map_mem_def Vector_assign_def OffsetPtr_assign_def to_offset_def
      OffsetPtr_get_def load32_store32_other)

text \<open>
  C7.  On the map \<open>{(1, 10), (2, 20)}\<close>, \<^verbatim>\<open>find\<close> with key 2 returns the second pair
  (address 208) and subscript with the absent key 3 raises the out-of-range failure,
  as claimed.  Subscript with key 2 hands back the pair itself: the reference denotes
  address 208, where the key 2 is stored, and not the second component at address 212,
  where the value 20 is stored.
\<close>

theorem Map_subscript_returns_pair:
  "Map_find (int32_key_eq 2) 8 map_mem 100 = Some 208 \<and>
   Map_subscript (int32_key_eq 2) 8 map_mem 100 = Some (Inr 208) \<and>
   load32 map_mem 208 = 2 \<and>
   load32 map_mem (208 + 4) = 20 \<and>
   Map_subscript (int32_key_eq 3) 8 map_mem 100 = Some (Inl OutOfRange)"
proof -
  have e: "Vector_end 8 map_mem 100 = 216" "Vector_begin map_mem 100 = 200"
    by (simp_all add: Vector_end_def Vector_begin_def Vector_size_def map_mem_fields)
  have f2: "find_loop (int32_key_eq 2) 8 map_mem 216 200 = Some 208"
    by (simp add: find_loop.simps int32_key_eq_def map_mem_fields)
  have f3: "find_loop (int32_key_eq 3) 8 map_mem 216 200 = Some 216"
    by (simp add: find_loop.simps int32_key_eq_def map_mem_fields)
  show ?thesis
    by (simp add: Map_subscript_def Map_find_def e f2 f3 map_mem_fields)
qed

section \<open>List\<close>

lemma list_block_Init: "list_block = Init 20 (Rec_ctor mem0 1000) 1000 12"
  by (simp add: list_block_def InplaceNew_def)

lemma list_block_fields:
  "load32 list_block 1000 = 20" "OffsetPtr_bool list_block 1004"
  "OffsetPtr_get list_block 1004 = 1020"
  "Allocator_capacity list_block 1020 = 12" "Allocator_used_space list_block 1020 = 8"
  unfolding list_block_Init
  using Init_fields [where b = 1000 and szS = 20 and m = "Rec_ctor mem0 1000" and fs = 12]
  by simp_all

lemma list_block_list:
  "load32 list_block 1008 = 0" "load32 list_block 1012 = 0" "load32 list_block 1016 = 0"
proof -
  have "list_block x = Rec_ctor mem0 1000 x" if "1008 \<le> x" "x < 1020" for x
    unfolding list_block_Init using that by (intro Init_frame) simp_all
  then have a: "load32 list_block a = load32 (Rec_ctor mem0 1000) a" if "1008 \<le> a" "a + 4 \<le> 1020" for a
    using that by (intro load32_eq_on) simp
  show "load32 list_block 1008 = 0" "load32 list_block 1012 = 0" "load32 list_block 1016 = 0"
    by (simp_all add: a Rec_ctor_def List_ctor_def load32_store32_other)
qed

lemma list_block_raw:
  "load32 list_block 1020 = 12" "load32 list_block 1024 = 8" "load32 list_block 1004 \<noteq> 0"
  using list_block_fields
  by (simp_all add: Allocator_capacity_def Allocator_used_space_def OffsetPtr_bool_def)

lemma list_block_alloc1: "Struct_Allocate list_block 1000 4 1 = (1028, list_block1)"
  using Allocate_succeeds [of 1 4 list_block 1020]
  by (simp add: Struct_Allocate_def list_block_fields list_block1_def)
     (simp add: Allocator_used_space_def load32_memset0_other list_block_raw)

lemma list_block1_same:
  "a + 4 \<le> 1024 \<Longrightarrow> load32 list_block1 a = load32 list_block a"
  by (simp add: list_block1_def load32_store32_other load32_memset0_other)

lemma list_block1_fields:
  "OffsetPtr_bool list_block1 1004" "OffsetPtr_get list_block1 1004 = 1020"
  "Allocator_capacity list_block1 1020 = 12" "Allocator_used_space list_block1 1020 = 12"
  "load32 list_block1 1008 = 0"
  using list_block_fields(2,3) list_block_raw list_block_list
  by (simp_all add: OffsetPtr_bool_def OffsetPtr_get_def list_block1_same
        Allocator_capacity_def Allocator_used_space_def)
     (simp add: list_block1_def)

lemma list_block_alloc2: "Struct_Allocate list_block1 1000 sizeof_List 1 = (0, list_block1)"
  by (simp add: Struct_Allocate_def list_block1_fields Allocate_fails sizeof_List_def)

lemma list_block_CreateList:
  "CreateList 4 list_block 1000 2 = (\<lparr>c_size = 0, c_value = 1028, c_next = 0\<rparr>, list_block1)"
  using list_block_alloc1 list_block_alloc2 by (subst CreateList.simps) simp

lemma resized_block_fields:
  "load32 resized_block 1008 = 0" "OffsetPtr_get resized_block 1012 = 1028"
  "OffsetPtr_bool resized_block 1012" "\<not> OffsetPtr_bool resized_block 1016"
  by (simp_all add: resized_block_def List_assign_def OffsetPtr_assign_def to_offset_def
      OffsetPtr_get_def OffsetPtr_bool_def load32_store32_other)

text \<open>
  C4.  The empty list of \<open>list_block\<close> satisfies the size invariant.  \<^verbatim>\<open>resize(s, 2)\<close>
  on it allocates the first element, fails to allocate the second node, and appends
  the descriptor of size 0 that \<^verbatim>\<open>CreateList\<close> returns: the call returns true and
  leaves the head with \<open>size_ = 0\<close> and a non-null \<open>value\<close>, which breaks the invariant.
\<close>

theorem List_resize_breaks_invariant:
  "List_invariant list_block 1008 \<and>
   List_resize 4 list_block 1008 1000 2 = Some (True, resized_block) \<and>
   List_size resized_block 1008 = 0 \<and>
   OffsetPtr_bool resized_block (1008 + 4) \<and>
   List_value resized_block 1008 = 1028 \<and>
   \<not> List_invariant resized_block 1008"
proof -
  have a: "List_append list_block1 1008 1000 \<lparr>c_size = 0, c_value = 1028, c_next = 0\<rparr>
      = Some (True, resized_block)"
    by (subst List_append.simps)
       (simp add: List_empty_def list_block1_fields resized_block_def)
  have r: "List_resize 4 list_block 1008 1000 2 = Some (True, resized_block)"
    by (subst List_resize.simps)
       (simp add: List_size_def list_block_list list_block_CreateList a)
  have i: "List_invariant list_block 1008"
    by (simp add: List_invariant_def List_size_def OffsetPtr_bool_def list_block_list)
  have n: "\<not> List_invariant resized_block 1008"
    by (simp add: List_invariant_def List_size_def resized_block_fields)
  show ?thesis
    using r i n by (simp add: List_size_def List_value_def resized_block_fields)
qed

section \<open>Relocation\<close>

lemma strlen_0: "m p = 0 \<Longrightarrow> strlen m p = Some 0"
  by (subst strlen.simps) simp

lemma strlen_Suc: "m p \<noteq> 0 \<Longrightarrow> strlen m p = map_option Suc (strlen m (p + 1))"
  by (subst strlen.simps) (cases "strlen m (p + 1)"; simp)

lemma cstring_0: "m p = 0 \<Longrightarrow> cstring m p = Some []"
  by (subst cstring.simps) simp

lemma cstring_Cons: "m p \<noteq> 0 \<Longrightarrow> cstring m p = map_option ((#) (m p)) (cstring m (p + 1))"
  by (subst cstring.simps) (cases "cstring m (p + 1)"; simp)

lemma strlen_reloc:
  assumes c: "byte_copy m b m' b' n"
  shows "strlen m p = Some l \<Longrightarrow> in_block b n p (l + 1) \<Longrightarrow>
         strlen m' (p + (b' - b)) = Some l \<and> cstring m' (p + (b' - b)) = cstring m p \<and>
         (\<exists>cs. cstring m p = Some cs \<and> length cs = l)"
proof (induction l arbitrary: p)
  case 0
  have z: "m p = 0"
  proof (rule ccontr)
    assume "m p \<noteq> 0"
    then show False
      using 0(1) by (simp add: strlen_Suc)
  qed
  have "m' (p + (b' - b)) = m p"
    using 0(2) by (intro byte_copyD [OF c]) (simp_all add: in_block_def)
  then show ?case
    using z by (simp add: strlen_0 cstring_0)
next
  case (Suc l)
  have nz: "m p \<noteq> 0"
  proof
    assume "m p = 0"
    then show False
      using Suc(2) by (simp add: strlen_0)
  qed
  then have s: "strlen m (p + 1) = Some l"
    using Suc(2) by (simp add: strlen_Suc)
  have i: "in_block b n (p + 1) (l + 1)"
    using Suc(3) by (simp add: in_block_def)
  have e: "m' (p + (b' - b)) = m p"
    using Suc(3) by (intro byte_copyD [OF c]) (simp_all add: in_block_def)
  have ih: "strlen m' (p + 1 + (b' - b)) = Some l"
    "cstring m' (p + 1 + (b' - b)) = cstring m (p + 1)"
    "\<exists>cs. cstring m (p + 1) = Some cs \<and> length cs = l"
    using Suc.IH [OF s i] by simp_all
  have a: "p + (b' - b) + 1 = p + 1 + (b' - b)"
    by simp
  show ?case
    using nz e ih by (auto simp: strlen_Suc cstring_Cons a)
qed


lemma slot_reloc:
  assumes c: "byte_copy m b m' b' n" and i: "in_block b n a 4"
  shows "load32 m' (a + (b' - b)) = load32 m a"
    and "OffsetPtr_bool m' (a + (b' - b)) = OffsetPtr_bool m a"
    and "OffsetPtr_get m' (a + (b' - b)) =
           (if OffsetPtr_bool m a then OffsetPtr_get m a + (b' - b) else 0)"
proof -
  show l: "load32 m' (a + (b' - b)) = load32 m a"
    using i by (intro load32_byte_copy [OF c]) (simp_all add: in_block_def)
  show "OffsetPtr_bool m' (a + (b' - b)) = OffsetPtr_bool m a"
    by (rule get_shift(1) [OF l])
  show "OffsetPtr_get m' (a + (b' - b)) =
           (if OffsetPtr_bool m a then OffsetPtr_get m a + (b' - b) else 0)"
    using get_shift(2) [OF l] by simp
qed

lemma in_block_part:
  "in_block b n a k \<Longrightarrow> 0 \<le> j \<Longrightarrow> j + int k' \<le> int k \<Longrightarrow> in_block b n (a + j) k'"
  by (simp add: in_block_def)

lemma String_reloc:
  assumes c: "byte_copy m b m' b' n" and i: "in_block b n a 4"
    and s: "OffsetPtr_bool m a \<longrightarrow> string_in_block m b n (OffsetPtr_get m a)"
    and lit: "m lit = 0" "m' lit = 0"
  shows "String_to_string lit m' (a + (b' - b)) = String_to_string lit m a"
    and "String_length lit m' (a + (b' - b)) = String_length lit m a"
    and "String_empty m' (a + (b' - b)) = String_empty m a"
    and "c_str lit m' (a + (b' - b)) =
           (if OffsetPtr_bool m a then c_str lit m a + (b' - b) else lit)"
proof -
  note r = slot_reloc [OF c i]
  show cs: "c_str lit m' (a + (b' - b)) =
           (if OffsetPtr_bool m a then c_str lit m a + (b' - b) else lit)"
    using r by (simp add: c_str_def)
  have str: "strlen m' (OffsetPtr_get m a + (b' - b)) = strlen m (OffsetPtr_get m a) \<and>
      cstring m' (OffsetPtr_get m a + (b' - b)) = cstring m (OffsetPtr_get m a) \<and>
      m' (OffsetPtr_get m a + (b' - b)) = m (OffsetPtr_get m a)"
    if al: "OffsetPtr_bool m a"
  proof -
    from s al obtain l where l: "strlen m (OffsetPtr_get m a) = Some l"
      "in_block b n (OffsetPtr_get m a) (l + 1)"
      by (auto simp: string_in_block_def split: option.splits)
    have "m' (OffsetPtr_get m a + (b' - b)) = m (OffsetPtr_get m a)"
      using l(2) by (intro byte_copyD [OF c]) (simp_all add: in_block_def)
    then show ?thesis
      using strlen_reloc [OF c l] l(1) by simp
  qed
  show "String_to_string lit m' (a + (b' - b)) = String_to_string lit m a"
    using r str lit by (simp add: String_to_string_def c_str_def cstring_0)
  show "String_length lit m' (a + (b' - b)) = String_length lit m a"
    using r str by (simp add: String_length_def c_str_def)
  show "String_empty m' (a + (b' - b)) = String_empty m a"
    using r str by (auto simp: String_empty_def)
qed

lemma Vector_reloc:
  assumes c: "byte_copy m b m' b' n" and i: "in_block b n a 8"
  shows "Vector_size m' (a + (b' - b)) = Vector_size m a"
    and "OffsetPtr_bool m (a + 4) \<Longrightarrow>
           Vector_index szT m' (a + (b' - b)) k = moved (b' - b) (Vector_index szT m a k)"
    and "OffsetPtr_bool m (a + 4) \<Longrightarrow>
           Vector_begin m' (a + (b' - b)) = Vector_begin m a + (b' - b)"
    and "OffsetPtr_bool m (a + 4) \<Longrightarrow>
           Vector_end szT m' (a + (b' - b)) = Vector_end szT m a + (b' - b)"
proof -
  note r0 = slot_reloc [OF c in_block_part [OF i, of 0 4], simplified]
  note r4 = slot_reloc [OF c in_block_part [OF i, of 4 4], simplified]
  have e: "a + (b' - b) + 4 = a + 4 + (b' - b)"
    by simp
  show "Vector_size m' (a + (b' - b)) = Vector_size m a"
    using r0(1) by (simp add: Vector_size_def)
  then show "Vector_index szT m' (a + (b' - b)) k = moved (b' - b) (Vector_index szT m a k)"
    if "OffsetPtr_bool m (a + 4)"
    using r4(3) that by (simp add: Vector_index_def moved_def e)
  show "Vector_begin m' (a + (b' - b)) = Vector_begin m a + (b' - b)"
    if "OffsetPtr_bool m (a + 4)"
    using r4(3) that by (simp add: Vector_begin_def e)
  show "Vector_end szT m' (a + (b' - b)) = Vector_end szT m a + (b' - b)"
    if "OffsetPtr_bool m (a + 4)"
    using r4(3) r0(1) that by (simp add: Vector_end_def Vector_size_def e)
qed

lemma List_node_reloc:
  assumes c: "byte_copy m b m' b' n" and i: "in_block b n a sizeof_List"
  shows "List_size m' (a + (b' - b)) = List_size m a"
    and "List_value m' (a + (b' - b)) =
           (if OffsetPtr_bool m (a + 4) then List_value m a + (b' - b) else 0)"
    and "List_next m' (a + (b' - b)) =
           (if OffsetPtr_bool m (a + 8) then List_next m a + (b' - b) else 0)"
    and "OffsetPtr_bool m' (a + (b' - b) + 8) = OffsetPtr_bool m (a + 8)"
proof -
  have i12: "in_block b n a 12"
    using i by (simp add: sizeof_List_def)
  note r0 = slot_reloc [OF c in_block_part [OF i12, of 0 4], simplified]
  note r4 = slot_reloc [OF c in_block_part [OF i12, of 4 4], simplified]
  note r8 = slot_reloc [OF c in_block_part [OF i12, of 8 4], simplified]
  have e: "a + (b' - b) + 4 = a + 4 + (b' - b)" "a + (b' - b) + 8 = a + 8 + (b' - b)"
    by simp_all
  show "List_size m' (a + (b' - b)) = List_size m a"
    using r0(1) by (simp add: List_size_def)
  show "List_value m' (a + (b' - b)) =
           (if OffsetPtr_bool m (a + 4) then List_value m a + (b' - b) else 0)"
    using r4(3) by (simp add: List_value_def e)
  show "List_next m' (a + (b' - b)) =
           (if OffsetPtr_bool m (a + 8) then List_next m a + (b' - b) else 0)"
    using r8(3) by (simp add: List_next_def e)
  show "OffsetPtr_bool m' (a + (b' - b) + 8) = OffsetPtr_bool m (a + 8)"
    using r8(2) by (simp add: e)
qed

lemma List_index_reloc:
  assumes c: "byte_copy m b m' b' n"
  shows "List_in_block m b n this k \<Longrightarrow>
         List_index m' (this + (b' - b)) k = moved (b' - b) (List_index m this k)"
proof (induction k arbitrary: this)
  case 0
  then have i: "in_block b n this sizeof_List"
    and v: "0 < List_size m this \<Longrightarrow> OffsetPtr_bool m (this + 4)"
    by (auto simp: List_in_block.simps [of m b n this 0] split: if_splits)
  note r = List_node_reloc [OF c i]
  show ?case
    using r(1,2) v
    by (simp add: List_index.simps [of _ _ 0] moved_def)
next
  case (Suc k)
  then have i: "in_block b n this sizeof_List"
    and nx: "Suc k < List_size m this \<Longrightarrow>
        OffsetPtr_bool m (this + 8) \<and> List_in_block m b n (List_next m this) k"
    by (auto simp: List_in_block.simps [of m b n this "Suc k"] split: if_splits)
  note r = List_node_reloc [OF c i]
  show ?case
  proof (cases "Suc k < List_size m this")
    case True
    then show ?thesis
      using r(1,3) nx Suc.IH [of "List_next m this"]
      by (simp add: List_index.simps [of _ _ "Suc k"])
  next
    case False
    then show ?thesis
      using r(1) by (simp add: List_index.simps [of _ _ "Suc k"] moved_def)
  qed
qed

lemma iterator_reloc:
  assumes c: "byte_copy m b m' b' n" and i: "in_block b n p sizeof_List"
    and nz: "p \<noteq> 0" "p + (b' - b) \<noteq> 0"
  shows "iterator_incr m' (p + (b' - b)) =
           (if OffsetPtr_bool m (p + 8) then iterator_incr m p + (b' - b) else 0)"
    and "iterator_deref m' (p + (b' - b)) =
           (if OffsetPtr_bool m (p + 4) then iterator_deref m p + (b' - b) else 0)"
  using List_node_reloc [OF c i] nz
  by (simp_all add: iterator_incr_def iterator_deref_def)

lemma find_loop_reloc:
  assumes "0 < szP"
  shows "(\<forall>j < k. keq m' (it + int (j * szP) + d) = keq m (it + int (j * szP))) \<Longrightarrow>
         find_loop keq szP m' (it + int (k * szP) + d) (it + d) =
           map_option (\<lambda>p. p + d) (find_loop keq szP m (it + int (k * szP)) it)"
proof (induction k arbitrary: it)
  case 0
  show ?case
    by (subst find_loop.simps, subst (2) find_loop.simps) simp
next
  case (Suc k)
  have "0 < Suc k * szP"
    using assms by simp
  then have "0 < int (Suc k * szP)"
    by (simp only: of_nat_0_less_iff)
  then have ne: "it \<noteq> it + int (Suc k * szP)" "it + d \<noteq> it + int (Suc k * szP) + d"
    by linarith+
  have k0: "keq m' (it + d) = keq m it"
    using Suc.prems by (auto dest: spec [of _ 0])
  have e: "it + int (Suc k * szP) = it + int szP + int (k * szP)"
    by (simp add: algebra_simps)
  have "\<forall>j < k. keq m' (it + int szP + int (j * szP) + d) = keq m (it + int szP + int (j * szP))"
  proof (intro allI impI)
    fix j assume "j < k"
    then have "Suc j < Suc k" by simp
    with Suc.prems have "keq m' (it + int (Suc j * szP) + d) = keq m (it + int (Suc j * szP))"
      by blast
    then show "keq m' (it + int szP + int (j * szP) + d) = keq m (it + int szP + int (j * szP))"
      by (simp add: algebra_simps)
  qed
  from Suc.IH [OF this]
  have ih: "find_loop keq szP m' (it + int (Suc k * szP) + d) (it + int szP + d) =
      map_option (\<lambda>p. p + d) (find_loop keq szP m (it + int (Suc k * szP)) (it + int szP))"
    by (simp only: e)
  have a: "it + d + int szP = it + int szP + d"
    by simp
  show ?case
  proof (cases "keq m it")
    case True
    then show ?thesis
      using k0 by (subst find_loop.simps, subst (2) find_loop.simps) simp
  next
    case False
    then show ?thesis
      using k0 ne ih by (subst find_loop.simps, subst (2) find_loop.simps) (simp add: a)
  qed
qed

lemma Map_reloc:
  assumes c: "byte_copy m b m' b' n" and i: "in_block b n a 8"
    and al: "OffsetPtr_bool m (a + 4)" and szP: "0 < szP"
    and keq: "\<forall>j < Vector_size m a.
        keq m' (Vector_begin m a + int (j * szP) + (b' - b)) = keq m (Vector_begin m a + int (j * szP))"
  shows "Map_find keq szP m' (a + (b' - b)) =
           map_option (\<lambda>p. p + (b' - b)) (Map_find keq szP m a)"
    and "Map_subscript keq szP m' (a + (b' - b)) =
           map_option (moved (b' - b)) (Map_subscript keq szP m a)"
proof -
  note v = Vector_reloc [OF c i]
  have e: "Vector_end szP m a = Vector_begin m a + int (Vector_size m a * szP)"
    by (simp add: Vector_end_def Vector_begin_def)
  show f: "Map_find keq szP m' (a + (b' - b)) =
           map_option (\<lambda>p. p + (b' - b)) (Map_find keq szP m a)"
    unfolding Map_find_def v(3) [OF al] v(4) [OF al] e
    by (rule find_loop_reloc [OF szP keq])
  show "Map_subscript keq szP m' (a + (b' - b)) =
           map_option (moved (b' - b)) (Map_subscript keq szP m a)"
    unfolding Map_subscript_def f v(4) [OF al]
    by (cases "Map_find keq szP m a") (simp_all add: moved_def)
qed

lemmas ptr_simps = OffsetPtr_assign_def to_offset_def load32_store32_other

lemma blob_words:
  "load32 blob 1000 = 32" "load32 blob 1004 = 28" "load32 blob 1008 = 32"
  "load32 blob 1012 = 2" "load32 blob 1016 = 27" "load32 blob 1020 = 27"
  "load32 blob 1024 = 1" "load32 blob 1028 = 35"
  "load32 blob 1032 = 96" "load32 blob 1036 = 39"
  "load32 blob 1043 = 5"
  "load32 blob 1047 = 1" "load32 blob 1051 = 8" "load32 blob 1055 = 0"
  "load32 blob 1059 = 6" "load32 blob 1063 = 7" "load32 blob 1067 = 9"
  by (simp_all add: blob_def ptr_simps)

lemma blob_bytes:
  "blob 1040 = 104" "blob 1041 = 105" "blob 1042 = 0" "blob 50 = 0"
  by (simp_all add: blob_def OffsetPtr_assign_def store32_frame mem0_def)

lemma blob_ptrs:
  "OffsetPtr_bool blob 1004" "OffsetPtr_get blob 1004 = 1032"
  "OffsetPtr_bool blob 1008" "OffsetPtr_get blob 1008 = 1040"
  "OffsetPtr_bool blob 1016" "OffsetPtr_get blob 1016 = 1043"
  "OffsetPtr_bool blob 1020" "OffsetPtr_get blob 1020 = 1047"
  "OffsetPtr_bool blob 1028" "OffsetPtr_get blob 1028 = 1063"
  "OffsetPtr_bool blob 1051" "OffsetPtr_get blob 1051 = 1059"
  "\<not> OffsetPtr_bool blob 1055"
  by (simp_all add: OffsetPtr_bool_def OffsetPtr_get_def blob_words)

lemma blob_block:
  "wf_block blob 1000" "Struct_used_space blob 1000 = 71" "Struct_capacity blob 1000 = 128"
  by (simp_all add: wf_block_def Struct_used_space_def Struct_capacity_def blob_ptrs blob_words
      Allocator_capacity_def Allocator_used_space_def sizeof_Allocator_def)

lemma blob_string:
  "strlen blob 1040 = Some 2" "cstring blob 1040 = Some [104, 105]"
  "string_in_block blob 1000 71 1040"
proof -
  show l: "strlen blob 1040 = Some 2"
    by (simp add: strlen_Suc strlen_0 blob_bytes)
  show "cstring blob 1040 = Some [104, 105]"
    by (simp add: cstring_Cons cstring_0 blob_bytes)
  show "string_in_block blob 1000 71 1040"
    by (simp add: string_in_block_def l in_block_def)
qed

lemma blob_list:
  "List_size blob 1012 = 2" "List_index blob 1012 1 = Inr 1059"
  "List_in_block blob 1000 71 1012 1" "iterator_incr blob 1012 = 1047"
proof -
  have s: "List_size blob 1012 = 2" "List_size blob 1047 = 1"
    "List_next blob 1012 = 1047" "List_value blob 1047 = 1059"
    by (simp_all add: List_size_def List_next_def List_value_def blob_words blob_ptrs)
  show "List_size blob 1012 = 2"
    by (rule s)
  show "List_index blob 1012 1 = Inr 1059"
    by (simp add: List_index.simps [of blob 1012] List_index.simps [of blob 1047] s)
  show "List_in_block blob 1000 71 1012 1"
    by (simp add: List_in_block.simps [of blob 1000 71 1012] List_in_block.simps [of blob 1000 71 1047]
        s in_block_def sizeof_List_def blob_ptrs)
  show "iterator_incr blob 1012 = 1047"
    by (simp add: iterator_incr_def s blob_ptrs)
qed

lemma blob_map:
  "Vector_size blob 1024 = 1" "Vector_begin blob 1024 = 1063"
  "Vector_index 8 blob 1024 0 = Inr 1063"
  "Map_find (int32_key_eq 7) 8 blob 1024 = Some 1063"
proof -
  show s: "Vector_size blob 1024 = 1" "Vector_begin blob 1024 = 1063"
    by (simp_all add: Vector_size_def Vector_begin_def blob_words blob_ptrs)
  show "Vector_index 8 blob 1024 0 = Inr 1063"
    by (simp add: Vector_index_def s blob_ptrs)
  have "find_loop (int32_key_eq 7) 8 blob 1071 1063 = Some 1063"
    by (subst find_loop.simps) (simp add: int32_key_eq_def blob_words)
  then show "Map_find (int32_key_eq 7) 8 blob 1024 = Some 1063"
    by (simp add: Map_find_def Vector_end_def s blob_ptrs Vector_begin_def)
qed

lemma moved_blob_copy: "byte_copy blob 1000 moved_blob 3000 71"
  unfolding moved_blob_def by (rule byte_copy_memcpy)

lemma ext_block_fields:
  "load32 ext_block 1000 = 12" "load32 ext_block 1004 = 0" "load32 ext_block 1008 = 3992"
  "ext_block 5000 = 65" "ext_block 5001 = 0" "ext_block 7000 = 0"
  by (simp_all add: ext_block_def ptr_simps store32_frame mem0_def)

text \<open>
  C1 (as amended).  Let the first \<open>n\<close> bytes of the block at \<open>b'\<close> in \<open>m'\<close> be a
  byte-for-byte copy of the first \<open>n\<close> bytes of the block at \<open>b\<close> in \<open>m\<close>.  Then every
  read that stays within the copied bytes gives the same result on the copy, up to the
  displacement \<open>b' - b\<close> of the addresses it returns:
  \<^item> for a well-formed block and \<open>n = used_space()\<close>, \<open>capacity()\<close> and \<open>used_space()\<close>
    are identical;
  \<^item> a 32-bit member reads identically; \<^verbatim>\<open>OffsetPtr::get\<close> is null on both or returns
    addresses that differ by exactly the displacement;
  \<^item> a \<^verbatim>\<open>String\<close> whose characters lie in the block has the same characters, length
    and emptiness, and \<^verbatim>\<open>c_str()\<close> is shifted by the displacement (or is the literal);
  \<^item> \<^verbatim>\<open>Vector\<close> and \<^verbatim>\<open>List\<close> sizes are identical, indexed access fails on both or
    returns shifted addresses, and iterators advance to shifted nodes;
  \<^item> \<^verbatim>\<open>Map::find\<close> and subscript return shifted results, given that the key
    comparison gives the same answers on the copied pairs.
\<close>

theorem relocation_law:
  assumes "byte_copy m b m' b' n"
  shows
    "(wf_block m b \<and> n = Struct_used_space m b \<longrightarrow>
        Struct_capacity m' b' = Struct_capacity m b \<and>
        Struct_used_space m' b' = Struct_used_space m b) \<and>
     (in_block b n a 4 \<longrightarrow>
        load32 m' (a + (b' - b)) = load32 m a \<and>
        OffsetPtr_bool m' (a + (b' - b)) = OffsetPtr_bool m a \<and>
        OffsetPtr_get m' (a + (b' - b)) =
          (if OffsetPtr_bool m a then OffsetPtr_get m a + (b' - b) else 0)) \<and>
     (in_block b n s 4 \<and>
      (OffsetPtr_bool m s \<longrightarrow> string_in_block m b n (OffsetPtr_get m s)) \<and>
      m lit = 0 \<and> m' lit = 0 \<longrightarrow>
        String_to_string lit m' (s + (b' - b)) = String_to_string lit m s \<and>
        String_length lit m' (s + (b' - b)) = String_length lit m s \<and>
        String_empty m' (s + (b' - b)) = String_empty m s \<and>
        c_str lit m' (s + (b' - b)) =
          (if OffsetPtr_bool m s then c_str lit m s + (b' - b) else lit)) \<and>
     (in_block b n v 8 \<and> OffsetPtr_bool m (v + 4) \<longrightarrow>
        Vector_size m' (v + (b' - b)) = Vector_size m v \<and>
        Vector_index szT m' (v + (b' - b)) i = moved (b' - b) (Vector_index szT m v i) \<and>
        Vector_begin m' (v + (b' - b)) = Vector_begin m v + (b' - b) \<and>
        Vector_end szT m' (v + (b' - b)) = Vector_end szT m v + (b' - b)) \<and>
     (List_in_block m b n l k \<longrightarrow>
        List_size m' (l + (b' - b)) = List_size m l \<and>
        List_index m' (l + (b' - b)) k = moved (b' - b) (List_index m l k)) \<and>
     (in_block b n p sizeof_List \<and> p \<noteq> 0 \<and> p + (b' - b) \<noteq> 0 \<longrightarrow>
        List_begin m' (p + (b' - b)) =
          (if List_empty m p then 0 else List_begin m p + (b' - b)) \<and>
        iterator_incr m' (p + (b' - b)) =
          (if OffsetPtr_bool m (p + 8) then iterator_incr m p + (b' - b) else 0) \<and>
        iterator_deref m' (p + (b' - b)) =
          (if OffsetPtr_bool m (p + 4) then iterator_deref m p + (b' - b) else 0)) \<and>
     (in_block b n mp 8 \<and> OffsetPtr_bool m (mp + 4) \<and> 0 < szP \<and>
      (\<forall>j < Vector_size m mp.
         keq m' (Vector_begin m mp + int (j * szP) + (b' - b)) =
         keq m (Vector_begin m mp + int (j * szP))) \<longrightarrow>
        Map_find keq szP m' (mp + (b' - b)) =
          map_option (\<lambda>q. q + (b' - b)) (Map_find keq szP m mp) \<and>
        Map_subscript keq szP m' (mp + (b' - b)) =
          map_option (moved (b' - b)) (Map_subscript keq szP m mp))"
proof (intro conjI impI; (elim conjE)?)
  assume "wf_block m b" "n = Struct_used_space m b"
  then show "Struct_capacity m' b' = Struct_capacity m b"
    "Struct_used_space m' b' = Struct_used_space m b"
    using block_reloc_sizes [of m b m' b'] assms by simp_all
next
  assume "in_block b n a 4"
  from slot_reloc [OF assms this]
  show "load32 m' (a + (b' - b)) = load32 m a"
    "OffsetPtr_bool m' (a + (b' - b)) = OffsetPtr_bool m a"
    "OffsetPtr_get m' (a + (b' - b)) =
          (if OffsetPtr_bool m a then OffsetPtr_get m a + (b' - b) else 0)"
    by simp_all
next
  assume "in_block b n s 4"
    "OffsetPtr_bool m s \<longrightarrow> string_in_block m b n (OffsetPtr_get m s)"
    "m lit = 0" "m' lit = 0"
  from String_reloc [OF assms this]
  show "String_to_string lit m' (s + (b' - b)) = String_to_string lit m s"
    "String_length lit m' (s + (b' - b)) = String_length lit m s"
    "String_empty m' (s + (b' - b)) = String_empty m s"
    "c_str lit m' (s + (b' - b)) =
          (if OffsetPtr_bool m s then c_str lit m s + (b' - b) else lit)"
    by simp_all
next
  assume i: "in_block b n v 8" and al: "OffsetPtr_bool m (v + 4)"
  note r = Vector_reloc [OF assms i]
  show "Vector_size m' (v + (b' - b)) = Vector_size m v"
    "Vector_index szT m' (v + (b' - b)) i = moved (b' - b) (Vector_index szT m v i)"
    "Vector_begin m' (v + (b' - b)) = Vector_begin m v + (b' - b)"
    "Vector_end szT m' (v + (b' - b)) = Vector_end szT m v + (b' - b)"
    using r(1) r(2-4) [OF al] by simp_all
next
  assume i: "List_in_block m b n l k"
  then have "in_block b n l sizeof_List"
    by (simp add: List_in_block.simps [of m b n l k])
  from List_node_reloc(1) [OF assms this] List_index_reloc [OF assms i]
  show "List_size m' (l + (b' - b)) = List_size m l"
    "List_index m' (l + (b' - b)) k = moved (b' - b) (List_index m l k)"
    by simp_all
next
  assume i: "in_block b n p sizeof_List" "p \<noteq> 0" "p + (b' - b) \<noteq> 0"
  have "in_block b n p 4"
    using i(1) by (simp add: in_block_def sizeof_List_def)
  from slot_reloc(1) [OF assms this]
  show "List_begin m' (p + (b' - b)) =
          (if List_empty m p then 0 else List_begin m p + (b' - b))"
    by (simp add: List_begin_def List_empty_def)
  from iterator_reloc [OF assms i]
  show "iterator_incr m' (p + (b' - b)) =
          (if OffsetPtr_bool m (p + 8) then iterator_incr m p + (b' - b) else 0)"
    "iterator_deref m' (p + (b' - b)) =
          (if OffsetPtr_bool m (p + 4) then iterator_deref m p + (b' - b) else 0)"
    by simp_all
next
  assume "in_block b n mp 8" "OffsetPtr_bool m (mp + 4)" "0 < szP"
      "\<forall>j < Vector_size m mp.
         keq m' (Vector_begin m mp + int (j * szP) + (b' - b)) =
         keq m (Vector_begin m mp + int (j * szP))"
  from Map_reloc [OF assms this]
  show "Map_find keq szP m' (mp + (b' - b)) =
          map_option (\<lambda>q. q + (b' - b)) (Map_find keq szP m mp)"
    "Map_subscript keq szP m' (mp + (b' - b)) =
          map_option (moved (b' - b)) (Map_subscript keq szP m mp)"
    by simp_all
qed


theorem relocation_law_witness:
  "Struct_capacity moved_blob 3000 = 128 \<and>
   Struct_used_space moved_blob 3000 = 71 \<and>
   OffsetPtr_get moved_blob 3008 = 3040 \<and>
   String_to_string 50 moved_blob 3008 = Some [104, 105] \<and>
   String_length 50 moved_blob 3008 = Some 2 \<and>
   Vector_index 8 moved_blob 3024 0 = Inr 3063 \<and>
   List_size moved_blob 3012 = 2 \<and>
   List_index moved_blob 3012 1 = Inr 3059 \<and>
   load32 moved_blob 3059 = 6 \<and>
   iterator_incr moved_blob 3012 = 3047 \<and>
   Map_find (int32_key_eq 7) 8 moved_blob 3024 = Some 3063"
proof -
  have lit: "blob 50 = 0" "moved_blob 50 = 0"
    by (simp_all add: blob_bytes moved_blob_def memcpy_outside)
  have key: "\<forall>j < Vector_size blob 1024.
      int32_key_eq 7 moved_blob (Vector_begin blob 1024 + int (j * 8) + (3000 - 1000)) =
      int32_key_eq 7 blob (Vector_begin blob 1024 + int (j * 8))"
    by (simp add: blob_map int32_key_eq_def moved_blob_def load32_memcpy_inside)
  note r = relocation_law [OF moved_blob_copy, where a = 1008 and s = 1008 and lit = 50
      and v = 1024 and szT = 8 and i = 0 and l = 1012 and k = 1 and p = 1012 and mp = 1024
      and szP = 8 and keq = "int32_key_eq 7"]
  note r2 = relocation_law [OF moved_blob_copy, where a = 1059 and s = 1008 and lit = 50
      and v = 1024 and szT = 8 and i = 0 and l = 1012 and k = 1 and p = 1012 and mp = 1024
      and szP = 8 and keq = "int32_key_eq 7"]
  show ?thesis
    using r r2 key lit blob_list
    by (simp add: blob_block blob_ptrs blob_string blob_map blob_words in_block_def
        sizeof_List_def moved_def String_to_string_def String_length_def c_str_def)
qed

text \<open>
  C1 as stated fails in two ways.  The pointers that reads return are not bit-identical:
  \<^verbatim>\<open>get\<close> on the string member returns 1040 in the block and 3040 in its copy.  And a
  read that leaves the copied bytes may differ in content: the string of \<open>ext_block\<close>
  reads \<open>A\<close>, the string of its copy reads the empty string.
\<close>

theorem relocation_counterexample:
  "wf_block blob 1000 \<and>
   byte_copy blob 1000 moved_blob 3000 (Struct_used_space blob 1000) \<and>
   OffsetPtr_get blob 1008 = 1040 \<and>
   OffsetPtr_get moved_blob 3008 = 3040 \<and>
   OffsetPtr_get moved_blob 3008 \<noteq> OffsetPtr_get blob 1008 \<and>
   wf_block ext_block 1000 \<and>
   byte_copy ext_block 1000 moved_ext 3000 (Struct_used_space ext_block 1000) \<and>
   String_to_string 50 ext_block 1008 = Some [65] \<and>
   String_to_string 50 moved_ext 3008 = Some [] \<and>
   String_to_string 50 moved_ext 3008 \<noteq> String_to_string 50 ext_block 1008"
proof -
  have g: "OffsetPtr_get moved_blob 3008 = 3040"
    using slot_reloc(3) [OF moved_blob_copy, of 1008]
    by (simp add: in_block_def blob_ptrs)
  have e: "\<not> OffsetPtr_bool ext_block 1004" "OffsetPtr_bool ext_block 1008"
    "OffsetPtr_get ext_block 1008 = 5000"
    by (simp_all add: OffsetPtr_bool_def OffsetPtr_get_def ext_block_fields)
  have w: "wf_block ext_block 1000" "Struct_used_space ext_block 1000 = 12"
    by (simp_all add: wf_block_def Struct_used_space_def e ext_block_fields)
  have c: "byte_copy ext_block 1000 moved_ext 3000 12"
    unfolding moved_ext_def by (rule byte_copy_memcpy)
  have s1: "String_to_string 50 ext_block 1008 = Some [65]"
    by (simp add: String_to_string_def c_str_def e cstring_Cons cstring_0 ext_block_fields)
  have m: "OffsetPtr_bool moved_ext 3008" "OffsetPtr_get moved_ext 3008 = 7000"
    using slot_reloc(2,3) [OF c, of 1008] by (simp_all add: in_block_def e)
  have "moved_ext 7000 = 0"
    by (simp add: moved_ext_def memcpy_outside ext_block_fields)
  then have s2: "String_to_string 50 moved_ext 3008 = Some []"
    by (simp add: String_to_string_def c_str_def m cstring_0)
  show ?thesis
    by (simp add: blob_block moved_blob_copy blob_ptrs g w c s1 s2)
qed

end
